theory Spec2Isabelle
  imports
    Main
    "HOL-Library.Char_ord"
    "HOL-Library.List_Lexorder"
    "HOL-Library.Sublist"
    "HOL-Library.AList"
    "HOL-Library.Multiset"
begin

section \<open>Go values: strings, runes, results\<close>

text \<open>
  A Go string is a sequence of bytes: \<^typ>\<open>string\<close>, with \<open>len\<close> the number of bytes,
  \<open>s[i]\<close> a byte and \<open><\<close> the byte-wise lexicographic order (the order of
  \<^typ>\<open>char list\<close>). A \<open>for i, c := range s\<close> loop and the conversion
  \<open>[]rune(s)\<close> decode UTF-8; a rune is a code point, a natural number here.

  A call returns a value, returns an error, or panics.
\<close>

type_synonym rune = nat

datatype panic =
    IndexOutOfRange
  | NilDereference
  | PanicMessage string

datatype error =
    UnexpectedReferenceDepth nat string bool
      \<comment> \<open>\<open>unexpected reference depth: %d for ref: %s local: %t\<close>\<close>
  | UnsupportedReference string
      \<comment> \<open>\<open>unsupported reference: %s\<close>\<close>
  | UnrecognizedExternalReference string
      \<comment> \<open>\<open>unrecognized external reference '%s'; please provide the known import ...\<close>\<close>
  | InvalidIntegerFormat string
      \<comment> \<open>\<open>invalid integer format: %s\<close>\<close>
  | InvalidNumberFormat string
      \<comment> \<open>\<open>invalid number format: %s\<close>\<close>
  | InvalidBooleanFormat string
      \<comment> \<open>\<open>invalid format (%s) for boolean\<close>\<close>
  | UnhandledSchemaType string
      \<comment> \<open>\<open>unhandled Schema type: %s\<close>\<close>
  | PropertyAlreadyExists string
      \<comment> \<open>\<open>property '%s' already exists with a different type\<close>\<close>
  | ErrorTurningReference string error
      \<comment> \<open>\<open>error turning reference (%s) into a Go type: %s\<close>\<close>
  | ErrorGeneratingProperty string error
      \<comment> \<open>\<open>error generating Go schema for property '%s': %w\<close>\<close>
  | ErrorAdditionalProperties error
      \<comment> \<open>\<open>error generating type for additional properties: %w\<close>\<close>
  | ErrorMergingSchemas error
      \<comment> \<open>\<open>error merging schemas: %w\<close>\<close>
  | InvalidExtensionValue string error
      \<comment> \<open>\<open>invalid value for %q: %w\<close>\<close>
  | ErrorResolvingPrimitive error
      \<comment> \<open>\<open>error resolving primitive type: %w\<close>\<close>
  | ErrorGeneratingArray error
      \<comment> \<open>\<open>error generating type for array: %w\<close>\<close>
  | ExternalError string
      \<comment> \<open>an error returned by a function that is not part of these two files\<close>

datatype 'a result =
    Ok 'a
  | Err error
  | Panic panic

fun isOk :: "'a result \<Rightarrow> bool" where
  "isOk (Ok v) = True"
| "isOk (Err e) = False"
| "isOk (Panic p) = False"

fun isErr :: "'a result \<Rightarrow> bool" where
  "isErr (Ok v) = False"
| "isErr (Err e) = True"
| "isErr (Panic p) = False"

fun isPanic :: "'a result \<Rightarrow> bool" where
  "isPanic (Ok v) = False"
| "isPanic (Err e) = False"
| "isPanic (Panic p) = True"

section \<open>What the Go runtime and library supply\<close>

text \<open>
  The Unicode tables of Go's \<open>unicode\<close> package are not part of the repository: they are
  a parameter, as is the order in which a \<open>range\<close> statement visits the map
  \<open>commonInitialisms\<close> (Go leaves the order of a map iteration unspecified). The order
  may depend on the string being rewritten. \<open>sort.Stable\<close> is insertion sort on a slice
  of at most 20 elements; what it returns for a longer slice of keys (where it merges
  sorted blocks of 20) is a parameter too.
\<close>

record runtime =
  IsUpper :: "rune \<Rightarrow> bool"
  IsLower :: "rune \<Rightarrow> bool"
  IsDigit :: "rune \<Rightarrow> bool"
  IsLetter :: "rune \<Rightarrow> bool"
  IsNumber :: "rune \<Rightarrow> bool"
  ToUpper :: "rune \<Rightarrow> rune"
  ToLower :: "rune \<Rightarrow> rune"
  IsSpace :: "rune \<Rightarrow> bool"
  initialismOrder :: "string \<Rightarrow> (string \<times> string) list"
  sortStableLong :: "string list \<Rightarrow> string list"

abbreviation rn :: "char \<Rightarrow> rune" where
  "rn c \<equiv> of_char c"

subsection \<open>UTF-8 (unicode/utf8)\<close>

definition RuneError :: rune where
  "RuneError = 0xFFFD"

text \<open>
  \<open>utf8.DecodeRuneInString\<close>: the first rune of a string and its width in bytes; a byte
  that starts no valid encoding is \<open>RuneError\<close> of width 1.
\<close>

definition DecodeRuneInString :: "string \<Rightarrow> rune \<times> nat" where
  "DecodeRuneInString s = (case s of [] \<Rightarrow> (RuneError, 0) | c0 # t \<Rightarrow>
     let b0 = of_char c0 :: nat in
     if b0 < 0x80 then (b0, 1)
     else if b0 < 0xC2 \<or> 0xF4 < b0 then (RuneError, 1)
     else
       let sz = (if b0 < 0xE0 then 2 else if b0 < 0xF0 then 3 else 4 :: nat);
           lo = (if b0 = 0xE0 then 0xA0 else if b0 = 0xF0 then 0x90 else 0x80 :: nat);
           hi = (if b0 = 0xED then 0x9F else if b0 = 0xF4 then 0x8F else 0xBF :: nat)
       in
       if length s < sz then (RuneError, 1)
       else
         let b1 = of_char (s ! 1) :: nat in
         if b1 < lo \<or> hi < b1 then (RuneError, 1)
         else if sz \<le> 2 then ((b0 mod 32) * 64 + b1 mod 64, 2)
         else
           let b2 = of_char (s ! 2) :: nat in
           if b2 < 0x80 \<or> 0xBF < b2 then (RuneError, 1)
           else if sz \<le> 3 then ((b0 mod 16) * 4096 + (b1 mod 64) * 64 + b2 mod 64, 3)
           else
             let b3 = of_char (s ! 3) :: nat in
             if b3 < 0x80 \<or> 0xBF < b3 then (RuneError, 1)
             else ((b0 mod 8) * 262144 + (b1 mod 64) * 4096 + (b2 mod 64) * 64 + b3 mod 64, 4))"

lemma DecodeRuneInString_width: "s \<noteq> [] \<Longrightarrow> 0 < snd (DecodeRuneInString s)"
  by (cases s) (simp_all add: DecodeRuneInString_def Let_def)

text \<open>\<open>for i, c := range s\<close>: the byte offset and the rune of every step.\<close>

function rangeString :: "nat \<Rightarrow> string \<Rightarrow> (nat \<times> rune) list" where
  "rangeString i s =
     (if s = [] then []
      else (i, fst (DecodeRuneInString s)) #
           rangeString (i + snd (DecodeRuneInString s)) (drop (snd (DecodeRuneInString s)) s))"
  by pat_completeness auto
termination
  by (relation "measure (\<lambda>(i, s). length s)") (auto simp: DecodeRuneInString_width)

declare rangeString.simps [simp del]

text \<open>\<open>[]rune(s)\<close>, and the runes a \<open>for _, c := range s\<close> loop sees.\<close>

definition runes :: "string \<Rightarrow> rune list" where
  "runes s = map snd (rangeString 0 s)"

text \<open>\<open>string(r)\<close> for a rune: its UTF-8 encoding, that of \<open>RuneError\<close> for a surrogate
  or a value above U+10FFFF.\<close>

definition EncodeRune :: "rune \<Rightarrow> string" where
  "EncodeRune r =
     (if r \<le> 0x7F then [char_of r]
      else if r \<le> 0x7FF then [char_of (0xC0 + r div 64), char_of (0x80 + r mod 64)]
      else if 0x10FFFF < r \<or> (0xD800 \<le> r \<and> r \<le> 0xDFFF) then [CHR 0xEF, CHR 0xBF, CHR 0xBD]
      else if r \<le> 0xFFFF then
        [char_of (0xE0 + r div 4096), char_of (0x80 + (r div 64) mod 64),
         char_of (0x80 + r mod 64)]
      else
        [char_of (0xF0 + r div 262144), char_of (0x80 + (r div 4096) mod 64),
         char_of (0x80 + (r div 64) mod 64), char_of (0x80 + r mod 64)])"

text \<open>\<open>string(rs)\<close> for a slice of runes.\<close>

definition fromRunes :: "rune list \<Rightarrow> string" where
  "fromRunes rs = concat (map EncodeRune rs)"

subsection \<open>The strings and strconv functions the code calls\<close>

definition isASCII :: "string \<Rightarrow> bool" where
  "isASCII s = list_all (\<lambda>c. (of_char c :: nat) < 0x80) s"

definition asciiLower :: "char \<Rightarrow> char" where
  "asciiLower c = (if CHR ''A'' \<le> c \<and> c \<le> CHR ''Z'' then char_of (of_char c + (32 :: nat)) else c)"

definition asciiUpper :: "char \<Rightarrow> char" where
  "asciiUpper c = (if CHR ''a'' \<le> c \<and> c \<le> CHR ''z'' then char_of (of_char c - (32 :: nat)) else c)"

text \<open>\<open>strings.ToLower\<close> and \<open>strings.ToUpper\<close>: byte-wise on an ASCII string, rune by
  rune through the Unicode tables otherwise.\<close>

definition strings_ToLower :: "runtime \<Rightarrow> string \<Rightarrow> string" where
  "strings_ToLower R s =
     (if isASCII s then map asciiLower s else fromRunes (map (ToLower R) (runes s)))"

definition strings_ToUpper :: "runtime \<Rightarrow> string \<Rightarrow> string" where
  "strings_ToUpper R s =
     (if isASCII s then map asciiUpper s else fromRunes (map (ToUpper R) (runes s)))"

text \<open>\<open>strings.Trim(s, " ")\<close>.\<close>

definition strings_Trim_space :: "string \<Rightarrow> string" where
  "strings_Trim_space s =
     rev (dropWhile (\<lambda>c. c = CHR '' '') (rev (dropWhile (\<lambda>c. c = CHR '' '') s)))"

text \<open>\<open>strings.ContainsAny(s, chars)\<close> for ASCII \<open>chars\<close>: some byte of \<open>s\<close> is one of them.\<close>

definition strings_ContainsAny :: "string \<Rightarrow> string \<Rightarrow> bool" where
  "strings_ContainsAny s chars = list_ex (\<lambda>c. c \<in> set chars) s"

text \<open>\<open>strings.ContainsRune(s, r)\<close> for an ASCII string \<open>s\<close>.\<close>

definition strings_ContainsRune :: "string \<Rightarrow> rune \<Rightarrow> bool" where
  "strings_ContainsRune s r = (r \<in> set (map rn s))"

text \<open>\<open>strings.ReplaceAll(s, old, new)\<close> for one-byte \<open>old\<close> and \<open>new\<close>.\<close>

definition strings_ReplaceAll_char :: "string \<Rightarrow> char \<Rightarrow> char \<Rightarrow> string" where
  "strings_ReplaceAll_char s old new = map (\<lambda>c. if c = old then new else c) s"

text \<open>\<open>strings.Split(s, sep)\<close> for a one-byte separator: never empty, one more part than
  there are separators (so the second case of the \<open>case\<close> never applies).\<close>

fun strings_Split :: "string \<Rightarrow> char \<Rightarrow> string list" where
  "strings_Split [] sep = [[]]"
| "strings_Split (c # s) sep =
     (if c = sep then [] # strings_Split s sep
      else (case strings_Split s sep of
              part # parts \<Rightarrow> (c # part) # parts
            | [] \<Rightarrow> [[c]]))"

fun strings_Join :: "string list \<Rightarrow> string \<Rightarrow> string" where
  "strings_Join [] sep = []"
| "strings_Join [x] sep = x"
| "strings_Join (x # y # ys) sep = x @ sep @ strings_Join (y # ys) sep"

text \<open>\<open>strconv.Itoa\<close> on a number that is not negative.\<close>

fun Itoa :: "nat \<Rightarrow> string" where
  "Itoa n = (if n < 10 then [char_of (48 + n)] else Itoa (n div 10) @ [char_of (48 + n mod 10)])"

declare Itoa.simps [simp del]

section \<open>Naming transform (utils.go)\<close>

text \<open>
  \<open>re.ReplaceAllString(str, rep + "$1")\<close> for the regular expression \<open>pat([^a-z]+|$)\<close>
  with a literal, non-empty \<open>pat\<close>: scanning from the left, an occurrence of \<open>pat\<close> that
  is followed by the end of the string or by a byte outside \<open>a\<close>..\<open>z\<close> is replaced by
  \<open>rep\<close>; the run of bytes outside \<open>a\<close>..\<open>z\<close> that follows is group 1, copied as it is,
  and the scan goes on behind it. (A rune beyond ASCII consists of bytes above \<open>z\<close>, so
  the run of bytes is the run of runes.)
\<close>

definition notLowerAZ :: "char \<Rightarrow> bool" where
  "notLowerAZ c = (\<not> (CHR ''a'' \<le> c \<and> c \<le> CHR ''z''))"

definition matchesAt :: "string \<Rightarrow> string \<Rightarrow> bool" where
  "matchesAt pat s =
     (prefix pat s \<and> (drop (length pat) s = [] \<or> notLowerAZ (hd (drop (length pat) s))))"

function ReplaceAllString :: "string \<Rightarrow> string \<Rightarrow> string \<Rightarrow> string" where
  "ReplaceAllString pat rep s =
     (if s = [] then []
      else if matchesAt pat s then
        rep @ takeWhile notLowerAZ (drop (length pat) s) @
          ReplaceAllString pat rep (dropWhile notLowerAZ (drop (length pat) s))
      else hd s # ReplaceAllString pat rep (tl s))"
  by pat_completeness auto
termination
proof (relation "measure (\<lambda>(pat, rep, s). length s)", goal_cases)
  case 1
  show ?case by simp
next
  case (2 pat rep s)
  show ?case
  proof (cases "pat = []")
    case True
    with 2 have "notLowerAZ (hd s)" by (simp add: matchesAt_def)
    with 2 True have "dropWhile notLowerAZ s = dropWhile notLowerAZ (tl s)"
      by (cases s) simp_all
    moreover have "length (dropWhile notLowerAZ (tl s)) \<le> length (tl s)"
      by (rule length_dropWhile_le)
    ultimately show ?thesis using 2 True by (cases s) simp_all
  next
    case False
    have "length (dropWhile notLowerAZ (drop (length pat) s)) \<le> length (drop (length pat) s)"
      by (rule length_dropWhile_le)
    moreover have "length (drop (length pat) s) < length s"
      using 2 False by (cases s) simp_all
    ultimately show ?thesis by simp
  qed
next
  case (3 pat rep s)
  then show ?case by (cases s) simp_all
qed

declare ReplaceAllString.simps [simp del]

text \<open>The map \<open>commonInitialisms\<close>: the replacement and the literal of its pattern, in
  the order of the source text.\<close>

definition commonInitialisms :: "(string \<times> string) list" where
  "commonInitialisms =
     [(''ACL'', ''Acl''), (''API'', ''Api''), (''ASCII'', ''Ascii''), (''CPU'', ''Cpu''),
      (''CSS'', ''Css''), (''DNS'', ''Dns''), (''EOF'', ''Eof''), (''GUID'', ''Guid''),
      (''HTML'', ''Html''), (''HTTP'', ''Http''), (''HTTPS'', ''Https''), (''ID'', ''Id''),
      (''IP'', ''Ip''), (''JSON'', ''Json''), (''LHS'', ''Lhs''), (''QPS'', ''Qps''),
      (''RAM'', ''Ram''), (''RHS'', ''Rhs''), (''RPC'', ''Rpc''), (''SLA'', ''Sla''),
      (''SMTP'', ''Smtp''), (''SQL'', ''Sql''), (''SSH'', ''Ssh''), (''TCP'', ''Tcp''),
      (''TLS'', ''Tls''), (''TTL'', ''Ttl''), (''UDP'', ''Udp''), (''UI'', ''Ui''),
      (''UID'', ''Uid''), (''UUID'', ''Uuid''), (''URI'', ''Uri''), (''URL'', ''Url''),
      (''UTF8'', ''Ut''), (''VM'', ''Vm''), (''XML'', ''Xml''), (''XMPP'', ''Xmpp''),
      (''XSRF'', ''Xsrf''), (''XSS'', ''Xss''), (''OAuth'', ''Oauth''), (''OFAC'', ''Ofac''),
      (''NASA'', ''Nasa''), (''USD'', ''Usd''), (''EUR'', ''Eur''), (''BTC'', ''Btc''),
      (''ETH'', ''Eth''), (''PDF'', ''Pdf''), (''PDF417'', ''Pdf417''), (''SSN'', ''Ssn''),
      (''SMS'', ''Sms'')]"

text \<open>\<open>fixCamelCaseAbbrev\<close>: one \<open>ReplaceAllString\<close> for every entry the iteration visits.\<close>

definition fixCamelCaseAbbrev :: "runtime \<Rightarrow> string \<Rightarrow> string" where
  "fixCamelCaseAbbrev R str =
     fold (\<lambda>(rep, pat) str. ReplaceAllString pat rep str) (initialismOrder R str) str"

definition separators :: string where
  "separators = ''-#@!$&=.+:;_~ (){}[]''"

text \<open>The loop of \<open>toCamelorPascalCase\<close> over the runes of the trimmed string, with the
  variables \<open>n\<close> and \<open>capNext\<close>.\<close>

fun toCamelorPascalCase_loop :: "runtime \<Rightarrow> rune list \<Rightarrow> string \<Rightarrow> bool \<Rightarrow> string" where
  "toCamelorPascalCase_loop R [] n capNext = n"
| "toCamelorPascalCase_loop R (v # vs) n capNext =
     (let n1 = (if IsUpper R v then n @ EncodeRune v else n);
          n2 = (if IsDigit R v then n1 @ EncodeRune v else n1);
          n3 = (if IsLower R v then
                  (if capNext then n2 @ strings_ToUpper R (EncodeRune v) else n2 @ EncodeRune v)
                else n2)
      in toCamelorPascalCase_loop R vs n3 (strings_ContainsRune separators v))"

definition toCamelorPascalCase :: "runtime \<Rightarrow> string \<Rightarrow> bool \<Rightarrow> string" where
  "toCamelorPascalCase R str capFirst =
     fixCamelCaseAbbrev R (toCamelorPascalCase_loop R (runes (strings_Trim_space str)) [] capFirst)"

definition ToPascalCase :: "runtime \<Rightarrow> string \<Rightarrow> string" where
  "ToPascalCase R str = toCamelorPascalCase R str True"

definition ToCamelCase :: "runtime \<Rightarrow> string \<Rightarrow> string" where
  "ToCamelCase R str = toCamelorPascalCase R str False"

text \<open>The loop of \<open>typeNamePrefix\<close> with the variable \<open>prefix\<close>; \<open>len\<close> is \<open>len(name)\<close>.\<close>

fun typeNamePrefix_loop :: "runtime \<Rightarrow> nat \<Rightarrow> rune list \<Rightarrow> string \<Rightarrow> string" where
  "typeNamePrefix_loop R len [] pre = pre"
| "typeNamePrefix_loop R len (r # rs) pre =
     (if r = rn CHR ''$'' then
        (if len = 1 then ''DollarSign'' else typeNamePrefix_loop R len rs pre)
      else if r = rn CHR ''-'' then typeNamePrefix_loop R len rs (pre @ ''Minus'')
      else if r = rn CHR ''+'' then typeNamePrefix_loop R len rs (pre @ ''Plus'')
      else if r = rn CHR ''&'' then typeNamePrefix_loop R len rs (pre @ ''And'')
      else if r = rn CHR ''~'' then typeNamePrefix_loop R len rs (pre @ ''Tilde'')
      else if r = rn CHR ''='' then typeNamePrefix_loop R len rs (pre @ ''Equal'')
      else if r = rn CHR ''#'' then typeNamePrefix_loop R len rs (pre @ ''Hash'')
      else if r = rn CHR ''.'' then typeNamePrefix_loop R len rs (pre @ ''Dot'')
      else if pre = [] \<and> IsDigit R r then ''N''
      else pre)"

definition typeNamePrefix :: "runtime \<Rightarrow> string \<Rightarrow> string" where
  "typeNamePrefix R name = typeNamePrefix_loop R (length name) (runes name) []"

definition SchemaNameToTypeName :: "runtime \<Rightarrow> string \<Rightarrow> string" where
  "SchemaNameToTypeName R name = typeNamePrefix R name @ ToPascalCase R name"

definition SchemaNameToEnumValueName :: "runtime \<Rightarrow> string \<Rightarrow> string" where
  "SchemaNameToEnumValueName R name =
     typeNamePrefix R name @ ToPascalCase R (strings_ReplaceAll_char name CHR ''_'' CHR ''-'')"

definition PathToTypeName :: "runtime \<Rightarrow> string list \<Rightarrow> string" where
  "PathToTypeName R path = strings_Join (map (ToPascalCase R) path) ''_''"

subsection \<open>What a replacement of an initialism may rewrite, in the words of its description\<close>

text \<open>
  \<open>rewritesAtBoundary pat rep s s'\<close>: the string \<open>s'\<close> is \<open>s\<close> with some occurrences of \<open>pat\<close>
  replaced by \<open>rep\<close>, each of them followed in \<open>s\<close> by the end of the string or by a byte
  outside \<open>a\<close>..\<open>z\<close>, and with every other byte left as it is.
\<close>

inductive rewritesAtBoundary :: "string \<Rightarrow> string \<Rightarrow> string \<Rightarrow> string \<Rightarrow> bool" where
  finish: "rewritesAtBoundary pat rep [] []"
| keep: "rewritesAtBoundary pat rep s s' \<Longrightarrow> rewritesAtBoundary pat rep (c # s) (c # s')"
| replace: "s = [] \<or> notLowerAZ (hd s) \<Longrightarrow> rewritesAtBoundary pat rep s s' \<Longrightarrow>
     rewritesAtBoundary pat rep (pat @ s) (rep @ s')"

code_pred rewritesAtBoundary .

text \<open>One such rewriting for each entry of a list of initialisms, in the order of the list.\<close>

inductive rewritesAllAtBoundary :: "(string \<times> string) list \<Rightarrow> string \<Rightarrow> string \<Rightarrow> bool" where
  no_entry: "rewritesAllAtBoundary [] s s"
| entry: "rewritesAtBoundary pat rep s s' \<Longrightarrow> rewritesAllAtBoundary entries s' s'' \<Longrightarrow>
     rewritesAllAtBoundary ((rep, pat) # entries) s s''"

code_pred rewritesAllAtBoundary .

text \<open>Some occurrence of \<open>pat\<close> in the string is followed by the end of the string or by a
  byte outside \<open>a\<close>..\<open>z\<close>.\<close>

fun occursAtBoundary :: "string \<Rightarrow> string \<Rightarrow> bool" where
  "occursAtBoundary pat [] = False"
| "occursAtBoundary pat (c # s) = (matchesAt pat (c # s) \<or> occursAtBoundary pat s)"

section \<open>Identifier sanitizer (utils.go)\<close>

definition IsGoKeyword :: "string \<Rightarrow> bool" where
  "IsGoKeyword str =
     (str \<in> set [''break'', ''case'', ''chan'', ''const'', ''continue'', ''default'', ''defer'',
        ''else'', ''fallthrough'', ''for'', ''func'', ''go'', ''goto'', ''if'', ''import'',
        ''interface'', ''map'', ''package'', ''range'', ''return'', ''select'', ''struct'',
        ''switch'', ''type'', ''var''])"

definition IsPredeclaredGoIdentifier :: "string \<Rightarrow> bool" where
  "IsPredeclaredGoIdentifier str =
     (str \<in> set [''bool'', ''byte'', ''complex64'', ''complex128'', ''error'', ''float32'',
        ''float64'', ''int'', ''int8'', ''int16'', ''int32'', ''int64'', ''rune'', ''string'',
        ''uint'', ''uint8'', ''uint16'', ''uint32'', ''uint64'', ''uintptr'',
        ''true'', ''false'', ''iota'',
        ''nil'',
        ''append'', ''cap'', ''close'', ''complex'', ''copy'', ''delete'', ''imag'', ''len'',
        ''make'', ''new'', ''panic'', ''print'', ''println'', ''real'', ''recover''])"

definition isValidRuneForGoID :: "runtime \<Rightarrow> nat \<Rightarrow> rune \<Rightarrow> bool" where
  "isValidRuneForGoID R index char =
     (if index = 0 \<and> IsNumber R char then False
      else IsLetter R char \<or> char = rn CHR ''_'' \<or> IsNumber R char)"

text \<open>\<open>IsGoIdentity\<close>: \<open>false\<close> at the first rune that is not valid at its byte offset,
  and after the loop whether the string is a keyword.\<close>

definition IsGoIdentity :: "runtime \<Rightarrow> string \<Rightarrow> bool" where
  "IsGoIdentity R str =
     (if list_ex (\<lambda>(i, c). \<not> isValidRuneForGoID R i c) (rangeString 0 str) then False
      else IsGoKeyword str)"

definition IsValidGoIdentity :: "runtime \<Rightarrow> string \<Rightarrow> bool" where
  "IsValidGoIdentity R str =
     (if IsGoIdentity R str then False else \<not> IsPredeclaredGoIdentifier str)"

text \<open>\<open>SanitizeGoIdentity\<close>: the loop runs over the slice of runes, so its index counts
  runes; the function panics when its final check fails.\<close>

definition SanitizeGoIdentity_loop :: "runtime \<Rightarrow> rune list \<Rightarrow> rune list" where
  "SanitizeGoIdentity_loop R sanitized =
     map (\<lambda>(i, c). if \<not> isValidRuneForGoID R i c then rn CHR ''_'' else c)
         (enumerate 0 sanitized)"

definition SanitizeGoIdentity :: "runtime \<Rightarrow> string \<Rightarrow> string result" where
  "SanitizeGoIdentity R str =
     (let str1 = fromRunes (SanitizeGoIdentity_loop R (runes str));
          str2 = (if IsGoKeyword str1 \<or> IsPredeclaredGoIdentifier str1 then ''_'' @ str1 else str1)
      in if \<not> IsValidGoIdentity R str2 then Panic (PanicMessage ''here is a bug'')
         else Ok str2)"

section \<open>Enum names (utils.go, SanitizeEnumNames)\<close>

text \<open>The first loop, with the variables \<open>dupCheck\<close> and \<open>deDup\<close>.\<close>

fun SanitizeEnumNames_deDup ::
  "string list \<Rightarrow> (string \<rightharpoonup> nat) \<Rightarrow> string list \<Rightarrow> string list" where
  "SanitizeEnumNames_deDup [] dupCheck deDup = deDup"
| "SanitizeEnumNames_deDup (n # ns) dupCheck deDup =
     SanitizeEnumNames_deDup ns (dupCheck(n \<mapsto> 0))
       (if dupCheck n = None then deDup @ [n] else deDup)"

text \<open>
  The last loop, with the variables \<open>dupCheck\<close> and \<open>sanitizedDeDup\<close>. Reading a key
  that the map \<open>dupCheck\<close> does not hold gives 0, so \<open>dupCheck[sanitized]++\<close> stores 1
  for a new key. The map \<open>sanitizedDeDup\<close> is returned and iterated over by the caller:
  it is an association list with one entry for each key, and an assignment to a key that
  is present replaces its value.
\<close>

fun SanitizeEnumNames_loop ::
  "runtime \<Rightarrow> bool \<Rightarrow> string list \<Rightarrow> (string \<rightharpoonup> nat) \<Rightarrow> (string \<times> string) list \<Rightarrow>
     (string \<times> string) list result" where
  "SanitizeEnumNames_loop R hasMultiWord [] dupCheck sanitizedDeDup = Ok sanitizedDeDup"
| "SanitizeEnumNames_loop R hasMultiWord (n # ns) dupCheck sanitizedDeDup =
     (let toSanitize = (if hasMultiWord then strings_ToLower R n else n) in
      case SanitizeGoIdentity R (SchemaNameToEnumValueName R toSanitize) of
        Panic p \<Rightarrow> Panic p
      | Err e \<Rightarrow> Err e
      | Ok sanitized \<Rightarrow>
          SanitizeEnumNames_loop R hasMultiWord ns
            (dupCheck(sanitized \<mapsto> (case dupCheck sanitized of None \<Rightarrow> 1 | Some k \<Rightarrow> k + 1)))
            (case dupCheck sanitized of
               None \<Rightarrow> AList.update sanitized n sanitizedDeDup
             | Some k \<Rightarrow> AList.update (sanitized @ Itoa k) n sanitizedDeDup))"

definition SanitizeEnumNames :: "runtime \<Rightarrow> string list \<Rightarrow> (string \<times> string) list result" where
  "SanitizeEnumNames R enumNames =
     (let deDup = SanitizeEnumNames_deDup enumNames Map.empty [];
          hasMultiWord = list_ex (\<lambda>n. strings_ContainsAny n ''_- '') deDup
      in SanitizeEnumNames_loop R hasMultiWord deDup Map.empty [])"

subsection \<open>What the enum extractor computes, in the words of its description\<close>

text \<open>The literals without exact duplicates, each at its first occurrence.\<close>

definition firstOccurrences :: "'a list \<Rightarrow> 'a list" where
  "firstOccurrences xs = foldl (\<lambda>acc x. if x \<in> set acc then acc else acc @ [x]) [] xs"




section \<open>Ordering utility (utils.go, keySlice)\<close>

text \<open>
  \<open>strings.EqualFold(key, "id")\<close>: equality under simple Unicode case folding. No rune
  but \<open>i\<close>, \<open>I\<close> folds to \<open>i\<close> and none but \<open>d\<close>, \<open>D\<close> folds to \<open>d\<close>, so the key is
  one of \<open>id\<close>, \<open>iD\<close>, \<open>Id\<close>, \<open>ID\<close>.
\<close>

definition EqualFold_id :: "string \<Rightarrow> bool" where
  "EqualFold_id key = (map asciiLower key = ''id'')"

text \<open>\<open>keySlice.Less\<close> on the keys at the two indices.\<close>

definition keySlice_Less :: "string \<Rightarrow> string \<Rightarrow> bool" where
  "keySlice_Less iKey jKey =
     (if EqualFold_id iKey then True
      else if EqualFold_id jKey then False
      else if length iKey \<le> 3 \<or> length jKey \<le> 3 then iKey < jKey
      else
        let iAt = (drop (length iKey - 3) iKey = ''_at'');
            jAt = (drop (length jKey - 3) jKey = ''_at'')
        in if iAt \<and> jAt then iKey < jKey
           else if iAt then False
           else if jAt then True
           else iKey < jKey)"

text \<open>
  \<open>insertionSort(data, 0, n)\<close> of Go's \<open>sort\<close> package: every element in turn moves
  left while it is \<open>Less\<close> than its left neighbour. \<open>ys\<close> is the part already sorted,
  nearest neighbour first.
\<close>

fun insertLeft :: "('a \<Rightarrow> 'a \<Rightarrow> bool) \<Rightarrow> 'a \<Rightarrow> 'a list \<Rightarrow> 'a list" where
  "insertLeft lt x [] = [x]"
| "insertLeft lt x (y # ys) = (if lt x y then y # insertLeft lt x ys else x # y # ys)"

definition insertionSort :: "('a \<Rightarrow> 'a \<Rightarrow> bool) \<Rightarrow> 'a list \<Rightarrow> 'a list" where
  "insertionSort lt xs = rev (foldl (\<lambda>ys x. insertLeft lt x ys) [] xs)"

text \<open>\<open>sort.Stable(keySlice(keys))\<close>.\<close>

definition sort_Stable :: "runtime \<Rightarrow> string list \<Rightarrow> string list" where
  "sort_Stable R keys =
     (if length keys \<le> 20 then insertionSort keySlice_Less keys else sortStableLong R keys)"

text \<open>
  \<open>SortedSchemaKeys\<close> and its siblings. A Go map is an association list here, in the
  order in which the \<open>range\<close> statement happens to visit it.
\<close>

definition SortedSchemaKeys :: "runtime \<Rightarrow> (string \<times> 'v) list \<Rightarrow> string list" where
  "SortedSchemaKeys R dict = sort_Stable R (map fst dict)"



section \<open>Reference resolver (utils.go, RefPathToGoType)\<close>

text \<open>
  The package variable \<open>importMapping\<close> (a map from the name of an external document to a
  \<open>goImport\<close>) is declared outside these two files: it is a parameter, and of a
  \<open>goImport\<close> the model keeps the field the resolver reads.
\<close>

record goImport =
  Name :: string

text \<open>\<open>refPath[0]\<close> of the empty string panics (index out of range).\<close>

function refPathToGoType ::
  "runtime \<Rightarrow> (string \<rightharpoonup> goImport) \<Rightarrow> string \<Rightarrow> bool \<Rightarrow> string result" where
  "refPathToGoType R importMapping refPath local =
     (if refPath = [] then Panic IndexOutOfRange
      else if hd refPath = CHR ''#'' then
        (let pathParts = strings_Split refPath CHR ''/'';
             depth = length pathParts
         in if local \<and> depth \<noteq> 4 then Err (UnexpectedReferenceDepth depth refPath local)
            else if \<not> local \<and> depth \<noteq> 4 \<and> depth \<noteq> 2 then
              Err (UnexpectedReferenceDepth depth refPath local)
            else Ok (SchemaNameToTypeName R (last pathParts)))
      else
        (let pathParts = strings_Split refPath CHR ''#'' in
         if length pathParts \<noteq> 2 then Err (UnsupportedReference refPath)
         else
           (let remoteComponent = pathParts ! 0;
                flatComponent = pathParts ! 1
            in case importMapping remoteComponent of
                 None \<Rightarrow> Err (UnrecognizedExternalReference remoteComponent)
               | Some gi \<Rightarrow>
                   (case refPathToGoType R importMapping (''#'' @ flatComponent) False of
                      Ok goType \<Rightarrow> Ok (Name gi @ ''.'' @ goType)
                    | Err err \<Rightarrow> Err err
                    | Panic p \<Rightarrow> Panic p))))"
  by pat_completeness auto
termination
  by (relation "measure (\<lambda>(R, importMapping, refPath, local).
        if refPath \<noteq> [] \<and> hd refPath = CHR ''#'' then 0 else 1)") auto

declare refPathToGoType.simps [simp del]

definition RefPathToGoType :: "runtime \<Rightarrow> (string \<rightharpoonup> goImport) \<Rightarrow> string \<Rightarrow> string result" where
  "RefPathToGoType R importMapping refPath = refPathToGoType R importMapping refPath True"

definition IsWholeDocumentReference :: "string \<Rightarrow> bool" where
  "IsWholeDocumentReference ref = (ref \<noteq> [] \<and> \<not> strings_ContainsAny ref ''#'')"

definition IsGoTypeReference :: "string \<Rightarrow> bool" where
  "IsGoTypeReference ref = (ref \<noteq> [] \<and> \<not> IsWholeDocumentReference ref)"

section \<open>Primitive type mapper (schema.go, resolveGoType)\<close>

definition resolveGoType :: "string \<Rightarrow> string \<Rightarrow> string result" where
  "resolveGoType f t =
     (if t = ''array'' then Ok ''array''
      else if t = ''integer'' then
        (if f = ''int64'' then Ok ''int64''
         else if f = ''int32'' then Ok ''int32''
         else if f = ''int16'' then Ok ''int16''
         else if f = ''int8'' then Ok ''int8''
         else if f = ''int'' then Ok ''int''
         else if f = ''uint64'' then Ok ''uint64''
         else if f = ''uint32'' then Ok ''uint32''
         else if f = ''uint16'' then Ok ''uint16''
         else if f = ''uint8'' then Ok ''uint8''
         else if f = ''uint'' then Ok ''uint''
         else if f = '''' then Ok ''int''
         else Err (InvalidIntegerFormat f))
      else if t = ''number'' then
        (if f = ''double'' then Ok ''float64''
         else if f = ''float'' \<or> f = '''' then Ok ''float32''
         else Err (InvalidNumberFormat f))
      else if t = ''boolean'' then
        (if f \<noteq> '''' then Err (InvalidBooleanFormat f) else Ok ''bool'')
      else if t = ''string'' then
        (if f = ''byte'' then Ok ''[]byte''
         else if f = ''email'' then Ok ''openapi_types.Email''
         else if f = ''date'' then Ok ''openapi_types.Date''
         else if f = ''date-time'' then Ok ''time.Time''
         else if f = ''json'' then Ok ''json.RawMessage''
         else if f = ''uuid'' then Ok ''openapi_types.UUID''
         else Ok ''string'')
      else Err (UnhandledSchemaType t))"

section \<open>The schema documents (package openapi3 of kin-openapi)\<close>

text \<open>
  The compiler reads a parsed document through pointers: a \<open>*openapi3.Schema\<close> is an
  address in a store, so that a document whose schemas refer to each other is a finite
  store. The fields are those the two files read, written with the prefix \<open>oa\<close>. The
  elements of \<open>Enum\<close> are kept as \<open>fmt.Sprintf("%v", _)\<close> prints them, the value of an
  extension as its text. A map is an association list in the order in which a \<open>range\<close>
  statement visits it.
\<close>

type_synonym addr = nat

record SchemaRef =
  Ref :: string
  Value :: "addr option"

record oaSchema =
  oaType :: string
  oaFormat :: string
  oaDescription :: string
  oaEnum :: "string list"
  oaProperties :: "(string \<times> SchemaRef option) list"
  oaItems :: "SchemaRef option"
  oaAllOf :: "SchemaRef option list option"
  oaAnyOf :: "SchemaRef option list option"
  oaOneOf :: "SchemaRef option list option"
  oaAdditionalPropertiesAllowed :: "bool option"
  oaAdditionalProperties :: "SchemaRef option"
  oaRequired :: "string list"
  oaNullable :: bool
  oaReadOnly :: bool
  oaWriteOnly :: bool
  oaExtensions :: "(string \<times> string) list"

type_synonym store = "addr \<rightharpoonup> oaSchema"

section \<open>The type model (schema.go)\<close>

text \<open>
  \<open>Schema\<close>, \<open>Property\<close> and \<open>TypeDefinition\<close> contain each other. The fields
  \<open>Description\<close> and \<open>Schema\<close> of a \<open>Property\<close> are \<open>pDescription\<close> and \<open>pSchema\<close>, the
  field \<open>Schema\<close> of a \<open>TypeDefinition\<close> is \<open>tSchema\<close>. A nil map is \<open>None\<close>.
\<close>

datatype Schema = Schema
    (GoType: string)
    (RefType: string)
    (RefGoType: string)
    (ArrayType: "Schema option")
    (EnumValues: "(string \<times> string) list option")
    (Properties: "Property list")
    (HasAdditionalProperties: bool)
    (AdditionalPropertiesType: "Schema option")
    (AdditionalTypes: "TypeDefinition list")
    (SkipOptionalPointer: bool)
    (Description: string)
    (OAPISchema: "addr option")
  and Property = Property
    (pDescription: string)
    (JsonFieldName: string)
    (pSchema: Schema)
    (Required: bool)
    (Nullable: bool)
    (ReadOnly: bool)
    (WriteOnly: bool)
    (ExtensionProps: "addr option")
  and TypeDefinition = TypeDefinition
    (TypeName: string)
    (JsonName: string)
    (tSchema: Schema)

text \<open>\<open>Schema{}\<close>, and the assignments to a field of a \<open>Schema\<close>.\<close>

definition zeroSchema :: Schema where
  "zeroSchema = Schema [] [] [] None None [] False None [] False [] None"

fun set_GoType :: "Schema \<Rightarrow> string \<Rightarrow> Schema" where
  "set_GoType (Schema a b c d e f g h i j k l) v = Schema v b c d e f g h i j k l"

fun set_RefType :: "Schema \<Rightarrow> string \<Rightarrow> Schema" where
  "set_RefType (Schema a b c d e f g h i j k l) v = Schema a v c d e f g h i j k l"

fun set_RefGoType :: "Schema \<Rightarrow> string \<Rightarrow> Schema" where
  "set_RefGoType (Schema a b c d e f g h i j k l) v = Schema a b v d e f g h i j k l"

fun set_ArrayType :: "Schema \<Rightarrow> Schema option \<Rightarrow> Schema" where
  "set_ArrayType (Schema a b c d e f g h i j k l) v = Schema a b c v e f g h i j k l"

fun set_EnumValues :: "Schema \<Rightarrow> (string \<times> string) list option \<Rightarrow> Schema" where
  "set_EnumValues (Schema a b c d e f g h i j k l) v = Schema a b c d v f g h i j k l"

fun set_Properties :: "Schema \<Rightarrow> Property list \<Rightarrow> Schema" where
  "set_Properties (Schema a b c d e f g h i j k l) v = Schema a b c d e v g h i j k l"

fun set_HasAdditionalProperties :: "Schema \<Rightarrow> bool \<Rightarrow> Schema" where
  "set_HasAdditionalProperties (Schema a b c d e f g h i j k l) v = Schema a b c d e f v h i j k l"

fun set_AdditionalPropertiesType :: "Schema \<Rightarrow> Schema option \<Rightarrow> Schema" where
  "set_AdditionalPropertiesType (Schema a b c d e f g h i j k l) v = Schema a b c d e f g v i j k l"

fun set_AdditionalTypes :: "Schema \<Rightarrow> TypeDefinition list \<Rightarrow> Schema" where
  "set_AdditionalTypes (Schema a b c d e f g h i j k l) v = Schema a b c d e f g h v j k l"

fun set_SkipOptionalPointer :: "Schema \<Rightarrow> bool \<Rightarrow> Schema" where
  "set_SkipOptionalPointer (Schema a b c d e f g h i j k l) v = Schema a b c d e f g h i v k l"

fun set_Description :: "Schema \<Rightarrow> string \<Rightarrow> Schema" where
  "set_Description (Schema a b c d e f g h i j k l) v = Schema a b c d e f g h i j v l"

fun set_OAPISchema :: "Schema \<Rightarrow> addr option \<Rightarrow> Schema" where
  "set_OAPISchema (Schema a b c d e f g h i j k l) v = Schema a b c d e f g h i j k v"

definition IsRef :: "Schema \<Rightarrow> bool" where
  "IsRef s = (RefType s \<noteq> [])"

definition TypeDecl :: "Schema \<Rightarrow> string" where
  "TypeDecl s = (if IsRef s then RefType s else GoType s)"

definition PropertiesEqual :: "Property \<Rightarrow> Property \<Rightarrow> bool" where
  "PropertiesEqual a b =
     (JsonFieldName a = JsonFieldName b \<and> TypeDecl (pSchema a) = TypeDecl (pSchema b)
      \<and> Required a = Required b)"

text \<open>The loop of \<open>AddProperty\<close>: the error of the first existing property that
  conflicts, if there is one.\<close>

fun AddProperty_scan :: "Property list \<Rightarrow> Property \<Rightarrow> error option" where
  "AddProperty_scan [] p = None"
| "AddProperty_scan (e # es) p =
     (if JsonFieldName e = JsonFieldName p \<and> \<not> PropertiesEqual e p
      then Some (PropertyAlreadyExists (JsonFieldName e))
      else AddProperty_scan es p)"

definition AddProperty :: "Schema \<Rightarrow> Property \<Rightarrow> Schema result" where
  "AddProperty s p =
     (case AddProperty_scan (Properties s) p of
        Some err \<Rightarrow> Err err
      | None \<Rightarrow> Ok (set_Properties s (Properties s @ [p])))"

definition GoFieldName :: "runtime \<Rightarrow> Property \<Rightarrow> string" where
  "GoFieldName R p = SchemaNameToTypeName R (JsonFieldName p)"

definition GoTypeDef :: "Property \<Rightarrow> string" where
  "GoTypeDef p =
     (let typeDef = TypeDecl (pSchema p) in
      if \<not> SkipOptionalPointer (pSchema p)
         \<and> (\<not> Required p \<or> Nullable p \<or> ReadOnly p \<or> WriteOnly p)
      then ''*'' @ typeDef else typeDef)"

definition CanAlias :: "TypeDefinition \<Rightarrow> bool" where
  "CanAlias t =
     (IsRef (tSchema t)
      \<or> (case ArrayType (tSchema t) of None \<Rightarrow> False | Some a \<Rightarrow> IsRef a))"

definition StringInArray :: "string \<Rightarrow> string list \<Rightarrow> bool" where
  "StringInArray str array = (str \<in> set array)"

definition SchemaHasAdditionalProperties :: "oaSchema \<Rightarrow> bool" where
  "SchemaHasAdditionalProperties schema =
     (if oaAdditionalPropertiesAllowed schema = Some True then True
      else if oaAdditionalProperties schema \<noteq> None then True
      else False)"

section \<open>Structural schema compiler (schema.go)\<close>

subsection \<open>What the rest of the package supplies\<close>

text \<open>
  The compiler calls functions and reads constants of the package that are declared
  outside these two files: the names of the extensions, the parsers of their values and
  \<open>MergeSchemas\<close>. They are parameters. \<open>MergeSchemas\<close> calls the compiler again, so it
  gets the compiler as an argument, and the store it reads.
\<close>

type_synonym 'a comp = "'a result option"

record externals =
  extPropGoType :: string
  extGoFieldName :: string
  extPropOmitEmpty :: string
  extPropExtraTags :: string
  extTypeName :: "string \<Rightarrow> string result"
  extParseGoFieldName :: "string \<Rightarrow> string result"
  extParseOmitEmpty :: "string \<Rightarrow> bool result"
  extExtraTags :: "string \<Rightarrow> (string \<times> string) list result"
  MergeSchemas ::
    "store \<Rightarrow> (SchemaRef option \<Rightarrow> string list \<Rightarrow> Schema comp) \<Rightarrow>
       SchemaRef option list \<Rightarrow> string list \<Rightarrow> Schema comp"

subsection \<open>Results of calls that may not return\<close>

text \<open>
  \<open>GenerateGoSchema\<close> calls itself through \<open>generateProperties\<close>, \<open>resolveType\<close> and
  \<open>MergeSchemas\<close>, on schemas it reaches through pointers, and nothing in the code bounds
  the depth of these calls. The model counts it: a computation is \<open>None\<close> when it needs
  calls nested deeper than the given bound, and \<open>Some\<close> of a result otherwise.

  \<open>andThen m wrap f\<close> is \<open>v, err := m; if err != nil { return Schema{}, wrap(err) }\<close>
  followed by \<open>f v\<close>.
\<close>

definition andThen :: "'a comp \<Rightarrow> (error \<Rightarrow> error) \<Rightarrow> ('a \<Rightarrow> 'b comp) \<Rightarrow> 'b comp" where
  "andThen m wrap f =
     (case m of
        None \<Rightarrow> None
      | Some (Panic p) \<Rightarrow> Some (Panic p)
      | Some (Err e) \<Rightarrow> Some (Err (wrap e))
      | Some (Ok v) \<Rightarrow> f v)"

definition deref :: "store \<Rightarrow> addr option \<Rightarrow> oaSchema option" where
  "deref h p = (case p of None \<Rightarrow> None | Some a \<Rightarrow> h a)"

subsection \<open>Comments and struct text\<close>

text \<open>\<open>strings.Replace(in, "\r\n", "\n", -1)\<close>.\<close>

fun replaceCRLF :: "string \<Rightarrow> string" where
  "replaceCRLF (a # b # s) =
     (if a = CHR 0x0D \<and> b = CHR 0x0A then CHR 0x0A # replaceCRLF s else a # replaceCRLF (b # s))"
| "replaceCRLF s = s"

definition strings_TrimSuffix :: "string \<Rightarrow> string \<Rightarrow> string" where
  "strings_TrimSuffix s suf = (if suffix suf s then take (length s - length suf) s else s)"

definition StringToGoComment :: "runtime \<Rightarrow> string \<Rightarrow> string" where
  "StringToGoComment R inp =
     (if length inp = 0 \<or> list_all (IsSpace R) (runes inp) then []
      else
        let in1 = replaceCRLF inp;
            in2 = strings_ReplaceAll_char in1 (CHR 0x0D) (CHR 0x0A);
            lines = map (\<lambda>line. ''// '' @ line) (strings_Split in2 (CHR 0x0A));
            in3 = strings_Join lines [CHR 0x0A]
        in strings_TrimSuffix in3 (CHR 0x0A # ''// ''))"

text \<open>\<open>m[k]\<close> for a map of strings: the empty string for a key that is not present.\<close>

definition mapIndex :: "(string \<times> string) list \<Rightarrow> string \<Rightarrow> string" where
  "mapIndex m k = (case map_of m k of None \<Rightarrow> [] | Some v \<Rightarrow> v)"

definition SortedStringKeys :: "runtime \<Rightarrow> (string \<times> string) list \<Rightarrow> string list" where
  "SortedStringKeys R dict = sort_Stable R (map fst dict)"

text \<open>One step of the loop of \<open>GenFieldsFromProperties\<close>: the text of the field of the
  property \<open>p\<close> at index \<open>i\<close>.\<close>

definition GenFieldsFromProperties_field ::
  "externals \<Rightarrow> runtime \<Rightarrow> store \<Rightarrow> nat \<Rightarrow> Property \<Rightarrow> string result" where
  "GenFieldsFromProperties_field E R h i p =
     (let field0 =
            (if pDescription p \<noteq> [] then
               (if i \<noteq> 0 then [CHR 0x0A] else []) @ StringToGoComment R (pDescription p) @ [CHR 0x0A]
             else [])
      in case deref h (ExtensionProps p) of
           None \<Rightarrow> Panic NilDereference
         | Some owner \<Rightarrow>
            (let exts = map_of (oaExtensions owner) in
             case (case exts (extGoFieldName E) of
                     None \<Rightarrow> Ok (GoFieldName R p)
                   | Some v \<Rightarrow>
                       (case extParseGoFieldName E v of
                          Ok name \<Rightarrow> Ok name
                        | Err e \<Rightarrow> Ok (GoFieldName R p)
                        | Panic x \<Rightarrow> Panic x)) of
               Panic x \<Rightarrow> Panic x
             | Err e \<Rightarrow> Err e
             | Ok goFieldName \<Rightarrow>
                (let field1 = field0 @ ''    '' @ goFieldName @ '' '' @ GoTypeDef p in
                 case (case exts (extPropOmitEmpty E) of
                         None \<Rightarrow> Ok True
                       | Some v \<Rightarrow>
                           (case extParseOmitEmpty E v of
                              Ok b \<Rightarrow> Ok b
                            | Err e \<Rightarrow> Ok True
                            | Panic x \<Rightarrow> Panic x)) of
                   Panic x \<Rightarrow> Panic x
                 | Err e \<Rightarrow> Err e
                 | Ok omitEmpty \<Rightarrow>
                    (let json =
                           (if (Required p \<and> \<not> ReadOnly p \<and> \<not> WriteOnly p) \<or> Nullable p
                               \<or> \<not> omitEmpty
                            then JsonFieldName p else JsonFieldName p @ '',omitempty'');
                         fieldTags0 = [(''json'', json)]
                     in case (case exts (extPropExtraTags E) of
                                None \<Rightarrow> Ok fieldTags0
                              | Some v \<Rightarrow>
                                  (case extExtraTags E v of
                                     Ok tags \<Rightarrow>
                                       Ok (fold (\<lambda>k ft. AList.update k (mapIndex tags k) ft)
                                             (SortedStringKeys R tags) fieldTags0)
                                   | Err e \<Rightarrow> Ok fieldTags0
                                   | Panic x \<Rightarrow> Panic x)) of
                          Panic x \<Rightarrow> Panic x
                        | Err e \<Rightarrow> Err e
                        | Ok fieldTags \<Rightarrow>
                            Ok (field1 @ [CHR 0x60] @
                                strings_Join
                                  (map (\<lambda>k. k @ '':'' @ [CHR 0x22] @ mapIndex fieldTags k
                                            @ [CHR 0x22])
                                     (SortedStringKeys R fieldTags)) '' ''
                                @ [CHR 0x60])))))"

fun GenFieldsFromProperties_loop ::
  "externals \<Rightarrow> runtime \<Rightarrow> store \<Rightarrow> nat \<Rightarrow> Property list \<Rightarrow> string list result" where
  "GenFieldsFromProperties_loop E R h i [] = Ok []"
| "GenFieldsFromProperties_loop E R h i (p # ps) =
     (case GenFieldsFromProperties_field E R h i p of
        Panic x \<Rightarrow> Panic x
      | Err e \<Rightarrow> Err e
      | Ok field \<Rightarrow>
          (case GenFieldsFromProperties_loop E R h (Suc i) ps of
             Panic x \<Rightarrow> Panic x
           | Err e \<Rightarrow> Err e
           | Ok fieldList \<Rightarrow> Ok (field # fieldList)))"

definition GenFieldsFromProperties ::
  "externals \<Rightarrow> runtime \<Rightarrow> store \<Rightarrow> Property list \<Rightarrow> string list result" where
  "GenFieldsFromProperties E R h props = GenFieldsFromProperties_loop E R h 0 props"

definition GenStructFromSchema :: "externals \<Rightarrow> runtime \<Rightarrow> store \<Rightarrow> Schema \<Rightarrow> string result" where
  "GenStructFromSchema E R h schema =
     (case GenFieldsFromProperties E R h (Properties schema) of
        Panic x \<Rightarrow> Panic x
      | Err e \<Rightarrow> Err e
      | Ok fieldList \<Rightarrow>
          (if HasAdditionalProperties schema then
             (case AdditionalPropertiesType schema of
                None \<Rightarrow> Panic NilDereference
              | Some apt \<Rightarrow>
                  (let addPropsType = (if RefType apt \<noteq> [] then RefType apt else GoType apt) in
                   Ok (strings_Join
                         ([''struct {''] @ fieldList @
                          [''AdditionalProperties map[string]'' @ addPropsType @ '' '' @ [CHR 0x60]
                             @ ''json:'' @ [CHR 0x22] @ ''-'' @ [CHR 0x22] @ [CHR 0x60]] @
                          [''}''])
                         [CHR 0x0A])))
           else Ok (strings_Join ([''struct {''] @ fieldList @ [''}'']) [CHR 0x0A])))"

subsection \<open>Properties, enum values and primitive types of a schema\<close>

text \<open>
  \<open>compile\<close> stands for \<open>GenerateGoSchema\<close> in the functions that call it. A path is a
  list of strings passed by value. \<open>PathToTypeName\<close> rewrites the elements of its
  argument in place, so the \<open>strings.Join\<close> that follows it sees the rewritten elements;
  the model follows that within a function, and not through a backing array that the slice
  may share with the caller's (only the texts of generated names depend on it).

  The loop of \<open>generateProperties\<close> over the sorted keys, with the variable \<open>outSchema\<close>.
\<close>

fun generateProperties_loop ::
  "runtime \<Rightarrow> store \<Rightarrow> (SchemaRef option \<Rightarrow> string list \<Rightarrow> Schema comp) \<Rightarrow> oaSchema \<Rightarrow>
     string list \<Rightarrow> string list \<Rightarrow> Schema \<Rightarrow> Schema comp" where
  "generateProperties_loop R h compile schema path [] outSchema = Some (Ok outSchema)"
| "generateProperties_loop R h compile schema path (pName # pNames) outSchema =
     (let p = (case map_of (oaProperties schema) pName of None \<Rightarrow> None | Some p \<Rightarrow> p);
          propertyPath = path @ [pName]
      in andThen (compile p propertyPath) (ErrorGeneratingProperty pName) (\<lambda>pSchema0.
           let required = StringInArray pName (oaRequired schema);
               typeName = PathToTypeName R propertyPath;
               typeDef = TypeDefinition typeName
                           (strings_Join (map (ToPascalCase R) propertyPath) ''.'') pSchema0;
               pSchema =
                 (if HasAdditionalProperties pSchema0 \<and> RefType pSchema0 = [] then
                    set_RefType
                      (set_AdditionalTypes pSchema0 (AdditionalTypes pSchema0 @ [typeDef]))
                      typeName
                  else pSchema0)
           in case p of
                None \<Rightarrow> Some (Panic NilDereference)
              | Some pref \<Rightarrow>
                  (case deref h (Value pref) of
                     None \<Rightarrow> Some (Panic NilDereference)
                   | Some pv \<Rightarrow>
                       generateProperties_loop R h compile schema path pNames
                         (set_Properties outSchema
                            (Properties outSchema @
                             [Property (oaDescription pv) pName pSchema required (oaNullable pv)
                                (oaReadOnly pv) (oaWriteOnly pv) (Value pref)])))))"

definition generateProperties ::
  "runtime \<Rightarrow> store \<Rightarrow> (SchemaRef option \<Rightarrow> string list \<Rightarrow> Schema comp) \<Rightarrow> oaSchema \<Rightarrow>
     string list \<Rightarrow> Schema \<Rightarrow> Schema comp" where
  "generateProperties R h compile schema path outSchema =
     andThen
       (generateProperties_loop R h compile schema path
          (SortedSchemaKeys R (oaProperties schema)) outSchema)
       (\<lambda>err. err)
       (\<lambda>out1.
          let out2 = set_AdditionalPropertiesType
                       (set_HasAdditionalProperties out1 (SchemaHasAdditionalProperties schema))
                       (Some (set_GoType zeroSchema ''interface{}''))
          in case oaAdditionalProperties schema of
               None \<Rightarrow> Some (Ok out2)
             | Some ap \<Rightarrow>
                 andThen (compile (Some ap) path) ErrorAdditionalProperties
                   (\<lambda>additionalSchema.
                      Some (Ok (set_AdditionalPropertiesType out2 (Some additionalSchema)))))"

definition generateEnumValues :: "runtime \<Rightarrow> oaSchema \<Rightarrow> string list \<Rightarrow> Schema \<Rightarrow> Schema result" where
  "generateEnumValues R schema path outSchema =
     (if length (oaEnum schema) = 0 then Ok outSchema
      else
        case SanitizeEnumNames R (oaEnum schema) of
          Panic x \<Rightarrow> Panic x
        | Err e \<Rightarrow> Err e
        | Ok sanitizedValues \<Rightarrow>
            (let enumValues =
                   fold (\<lambda>(k, v) m.
                           AList.update
                             (SchemaNameToEnumValueName R
                                (PathToTypeName R (path @ [if v = [] then ''Empty'' else k])))
                             v m)
                     sanitizedValues [];
                 out1 = set_EnumValues outSchema (Some enumValues)
             in if length path > 1 then
                  (let typeName = SchemaNameToTypeName R (PathToTypeName R path);
                       typeDef = TypeDefinition typeName
                                   (strings_Join (map (ToPascalCase R) path) ''.'') out1
                   in Ok (set_RefType
                            (set_AdditionalTypes out1 (AdditionalTypes out1 @ [typeDef]))
                            typeName))
                else Ok out1))"

definition resolveType ::
  "runtime \<Rightarrow> (SchemaRef option \<Rightarrow> string list \<Rightarrow> Schema comp) \<Rightarrow> oaSchema \<Rightarrow> string list \<Rightarrow>
     Schema \<Rightarrow> Schema comp" where
  "resolveType R compile schema path outSchema =
     (case resolveGoType (oaFormat schema) (oaType schema) of
        Panic x \<Rightarrow> Some (Panic x)
      | Err err \<Rightarrow> Some (Err err)
      | Ok goType \<Rightarrow>
          (if goType = ''array'' then
             andThen (compile (oaItems schema) path) ErrorGeneratingArray
               (\<lambda>arrayType.
                  Some (Ok (set_Properties
                              (set_AdditionalTypes
                                 (set_GoType (set_ArrayType outSchema (Some arrayType))
                                    (''[]'' @ TypeDecl arrayType))
                                 (AdditionalTypes arrayType))
                              (Properties arrayType))))
           else if goType = ''json.RawMessage'' then
             Some (Ok (set_GoType (set_SkipOptionalPointer outSchema True) goType))
           else Some (Ok (set_GoType outSchema goType))))"

subsection \<open>GenerateGoSchema\<close>

text \<open>The schemas a reference collects in \<open>schemas\<close>: reading \<open>sRef.Value\<close> of a nil
  element of \<open>AllOf\<close> panics.\<close>

fun allOfValues :: "SchemaRef option list \<Rightarrow> addr option list result" where
  "allOfValues [] = Ok []"
| "allOfValues (None # sRefs) = Panic NilDereference"
| "allOfValues (Some sRef # sRefs) =
     (case allOfValues sRefs of
        Ok vs \<Rightarrow> Ok (Value sRef # vs)
      | Err e \<Rightarrow> Err e
      | Panic x \<Rightarrow> Panic x)"

text \<open>The loop \<open>for _, scm := range schemas\<close> of the reference branch, with the variable
  \<open>outSchema\<close>.\<close>

fun GenerateGoSchema_schemas ::
  "runtime \<Rightarrow> store \<Rightarrow> (SchemaRef option \<Rightarrow> string list \<Rightarrow> Schema comp) \<Rightarrow> string list \<Rightarrow>
     addr option list \<Rightarrow> Schema \<Rightarrow> Schema comp" where
  "GenerateGoSchema_schemas R h compile path [] outSchema = Some (Ok outSchema)"
| "GenerateGoSchema_schemas R h compile path (scm # scms) outSchema =
     (case deref h scm of
        None \<Rightarrow> Some (Panic NilDereference)
      | Some s \<Rightarrow>
          andThen (generateProperties R h compile s path outSchema) (\<lambda>err. err) (\<lambda>new1.
            andThen (Some (generateEnumValues R s path new1)) (\<lambda>err. err) (\<lambda>new2.
              let out1 = set_Properties outSchema (Properties outSchema @ Properties new2);
                  out2 = (case EnumValues new2 of
                            None \<Rightarrow> out1
                          | Some evs \<Rightarrow>
                              fold (\<lambda>(k, v) out.
                                      set_EnumValues out
                                        (Some (AList.update k v
                                           (case EnumValues out of None \<Rightarrow> [] | Some m \<Rightarrow> m))))
                                evs out1)
              in GenerateGoSchema_schemas R h compile path scms out2)))"

text \<open>The body of \<open>GenerateGoSchema\<close>, with \<open>compile\<close> for the calls of itself.\<close>

definition GenerateGoSchema_body ::
  "externals \<Rightarrow> runtime \<Rightarrow> (string \<rightharpoonup> goImport) \<Rightarrow> store \<Rightarrow>
     (SchemaRef option \<Rightarrow> string list \<Rightarrow> Schema comp) \<Rightarrow> SchemaRef option \<Rightarrow> string list \<Rightarrow>
     Schema comp" where
  "GenerateGoSchema_body E R importMapping h compile sref path =
     (case sref of
        None \<Rightarrow> Some (Ok (set_GoType zeroSchema ''interface{}''))
      | Some sr \<Rightarrow>
          if IsGoTypeReference (Ref sr) then
            (case RefPathToGoType R importMapping (Ref sr) of
               Panic x \<Rightarrow> Some (Panic x)
             | Err err \<Rightarrow> Some (Err (ErrorTurningReference (Ref sr) err))
             | Ok refType \<Rightarrow>
                 (case deref h (Value sr) of
                    None \<Rightarrow> Some (Panic NilDereference)
                  | Some schema \<Rightarrow>
                      (case (case oaAllOf schema of
                               None \<Rightarrow> Ok [Value sr]
                             | Some allOf \<Rightarrow>
                                 (case allOfValues allOf of
                                    Ok vs \<Rightarrow> Ok (Value sr # vs)
                                  | Err e \<Rightarrow> Err e
                                  | Panic x \<Rightarrow> Panic x)) of
                         Panic x \<Rightarrow> Some (Panic x)
                       | Err e \<Rightarrow> Some (Err e)
                       | Ok schemas \<Rightarrow>
                           (let outSchema0 =
                                  set_Description (set_GoType zeroSchema refType)
                                    (StringToGoComment R (oaDescription schema));
                                outSchema =
                                  set_RefGoType outSchema0
                                    (case resolveGoType (oaFormat schema) (oaType schema) of
                                       Ok goType \<Rightarrow> goType
                                     | Err e \<Rightarrow> []
                                     | Panic x \<Rightarrow> [])
                            in GenerateGoSchema_schemas R h compile path schemas outSchema))))
          else
            (case deref h (Value sr) of
               None \<Rightarrow> Some (Panic NilDereference)
             | Some schema \<Rightarrow>
                 (let outSchema =
                        set_OAPISchema
                          (set_Description zeroSchema (StringToGoComment R (oaDescription schema)))
                          (Value sr)
                  in if oaAnyOf schema \<noteq> None then Some (Ok (set_GoType outSchema ''interface{}''))
                     else if oaOneOf schema \<noteq> None then
                       Some (Ok (set_GoType outSchema ''interface{}''))
                     else
                       case oaAllOf schema of
                         Some allOf \<Rightarrow>
                           andThen (MergeSchemas E h compile allOf path) ErrorMergingSchemas
                             (\<lambda>mergedSchema. Some (Ok (set_OAPISchema mergedSchema (Value sr))))
                       | None \<Rightarrow>
                           (case map_of (oaExtensions schema) (extPropGoType E) of
                              Some extension \<Rightarrow>
                                (case extTypeName E extension of
                                   Ok typeName \<Rightarrow> Some (Ok (set_GoType outSchema typeName))
                                 | Err err \<Rightarrow>
                                     Some (Err (InvalidExtensionValue (extPropGoType E) err))
                                 | Panic x \<Rightarrow> Some (Panic x))
                            | None \<Rightarrow>
                                (let t = oaType schema in
                                 if t = [] \<or> t = ''object'' then
                                   (if length (oaProperties schema) = 0
                                       \<and> \<not> SchemaHasAdditionalProperties schema
                                    then
                                      Some (Ok (set_GoType outSchema
                                        (if t = ''object'' then ''map[string]interface{}''
                                         else ''interface{}'')))
                                    else
                                      andThen (generateProperties R h compile schema path outSchema)
                                        (\<lambda>err. err)
                                        (\<lambda>out1.
                                           case GenStructFromSchema E R h out1 of
                                             Ok structText \<Rightarrow> Some (Ok (set_GoType out1 structText))
                                           | Err e \<Rightarrow> Some (Err e)
                                           | Panic x \<Rightarrow> Some (Panic x)))
                                 else if length (oaEnum schema) > 0 then
                                   andThen (resolveType R compile schema path outSchema)
                                     ErrorResolvingPrimitive
                                     (\<lambda>out1. Some (generateEnumValues R schema path out1))
                                 else
                                   andThen (resolveType R compile schema path outSchema)
                                     ErrorResolvingPrimitive
                                     (\<lambda>out1. Some (Ok out1)))))))"

text \<open>
  \<open>GenerateGoSchema\<close> with calls of itself nested at most \<open>n\<close> deep: \<open>None\<close> when the
  computation needs a deeper nesting.
\<close>

primrec GenerateGoSchema ::
  "externals \<Rightarrow> runtime \<Rightarrow> (string \<rightharpoonup> goImport) \<Rightarrow> store \<Rightarrow> nat \<Rightarrow>
     SchemaRef option \<Rightarrow> string list \<Rightarrow> Schema comp" where
  "GenerateGoSchema E R importMapping h 0 = (\<lambda>sref path. None)"
| "GenerateGoSchema E R importMapping h (Suc n) =
     GenerateGoSchema_body E R importMapping h (GenerateGoSchema E R importMapping h n)"

section \<open>A runtime for the examples\<close>

text \<open>
  Go's Unicode tables on the code points up to U+00FF (ASCII and Latin-1), with no class
  and no case mapping beyond them, the iteration over \<open>commonInitialisms\<close> in the
  order of the source text, and slices of more than 20 keys left as they are (no example
  has one). The examples below are evaluated in it.
\<close>

definition latin1_IsUpper :: "rune \<Rightarrow> bool" where
  "latin1_IsUpper r = ((0x41 \<le> r \<and> r \<le> 0x5A) \<or> (0xC0 \<le> r \<and> r \<le> 0xD6) \<or> (0xD8 \<le> r \<and> r \<le> 0xDE))"

definition latin1_IsLower :: "rune \<Rightarrow> bool" where
  "latin1_IsLower r =
     ((0x61 \<le> r \<and> r \<le> 0x7A) \<or> r = 0xB5 \<or> (0xDF \<le> r \<and> r \<le> 0xF6) \<or> (0xF8 \<le> r \<and> r \<le> 0xFF))"

definition latin1_IsDigit :: "rune \<Rightarrow> bool" where
  "latin1_IsDigit r = (0x30 \<le> r \<and> r \<le> 0x39)"

definition latin1_IsLetter :: "rune \<Rightarrow> bool" where
  "latin1_IsLetter r = (latin1_IsUpper r \<or> latin1_IsLower r \<or> r = 0xAA \<or> r = 0xBA)"

definition latin1_IsNumber :: "rune \<Rightarrow> bool" where
  "latin1_IsNumber r =
     (latin1_IsDigit r \<or> r = 0xB2 \<or> r = 0xB3 \<or> r = 0xB9 \<or> (0xBC \<le> r \<and> r \<le> 0xBE))"

definition latin1_ToUpper :: "rune \<Rightarrow> rune" where
  "latin1_ToUpper r =
     (if (0x61 \<le> r \<and> r \<le> 0x7A) \<or> (0xE0 \<le> r \<and> r \<le> 0xF6) \<or> (0xF8 \<le> r \<and> r \<le> 0xFE) then r - 32
      else if r = 0xB5 then 0x39C
      else if r = 0xFF then 0x178
      else r)"

definition latin1_ToLower :: "rune \<Rightarrow> rune" where
  "latin1_ToLower r = (if latin1_IsUpper r then r + 32 else r)"

definition latin1_IsSpace :: "rune \<Rightarrow> bool" where
  "latin1_IsSpace r = ((0x09 \<le> r \<and> r \<le> 0x0D) \<or> r = 0x20 \<or> r = 0x85 \<or> r = 0xA0)"

definition latin1 :: runtime where
  "latin1 =
     \<lparr> IsUpper = latin1_IsUpper, IsLower = latin1_IsLower, IsDigit = latin1_IsDigit,
       IsLetter = latin1_IsLetter, IsNumber = latin1_IsNumber,
       ToUpper = latin1_ToUpper, ToLower = latin1_ToLower, IsSpace = latin1_IsSpace,
       initialismOrder = (\<lambda>str. commonInitialisms),
       sortStableLong = (\<lambda>keys. keys) \<rparr>"

text \<open>A property with a name, a Go type and a \<open>Required\<close> flag.\<close>

definition exampleProperty :: "string \<Rightarrow> string \<Rightarrow> bool \<Rightarrow> Property" where
  "exampleProperty name goType required =
     Property [] name (set_GoType zeroSchema goType) required False False False None"

text \<open>
  A document with a schema that refers to itself:
  \<^verbatim>\<open>components: {schemas: {Node: {type: object,
     properties: {next: {$ref: '#/components/schemas/Node'}}}}}\<close>.
  The parser stores the schema \<open>Node\<close> once, at address 0 here, and the reference of the
  property \<open>next\<close> points to it.
\<close>

definition emptyOaSchema :: oaSchema where
  "emptyOaSchema =
     \<lparr> oaType = [], oaFormat = [], oaDescription = [], oaEnum = [], oaProperties = [],
       oaItems = None, oaAllOf = None, oaAnyOf = None, oaOneOf = None,
       oaAdditionalPropertiesAllowed = None, oaAdditionalProperties = None, oaRequired = [],
       oaNullable = False, oaReadOnly = False, oaWriteOnly = False, oaExtensions = [] \<rparr>"

definition nodeRef :: SchemaRef where
  "nodeRef = \<lparr> Ref = ''#/components/schemas/Node'', Value = Some 0 \<rparr>"

definition nodeSchema :: oaSchema where
  "nodeSchema = emptyOaSchema \<lparr> oaType := ''object'', oaProperties := [(''next'', Some nodeRef)] \<rparr>"

definition nodeStore :: store where
  "nodeStore = [0 \<mapsto> nodeSchema]"

text \<open>The schema \<open>Node\<close> as the entry of \<open>components.schemas\<close>: no reference path.\<close>

definition nodeDefinition :: SchemaRef where
  "nodeDefinition = \<lparr> Ref = [], Value = Some 0 \<rparr>"

text \<open>A string schema at address 1, and a reference to it.\<close>

definition nameStore :: store where
  "nameStore = [1 \<mapsto> emptyOaSchema \<lparr> oaType := ''string'' \<rparr>]"

definition nameRef :: SchemaRef where
  "nameRef = \<lparr> Ref = ''#/components/schemas/Name'', Value = Some 1 \<rparr>"

text \<open>An array schema at address 2 whose items are the reference to the string schema.\<close>

definition namesStore :: store where
  "namesStore = nameStore (2 \<mapsto> emptyOaSchema \<lparr> oaType := ''array'', oaItems := Some nameRef \<rparr>)"

definition namesDefinition :: SchemaRef where
  "namesDefinition = \<lparr> Ref = [], Value = Some 2 \<rparr>"

text \<open>
  The rest of the package for the examples, none of which has an extension or an
  \<open>allOf\<close>: the names of the extensions, parsers that accept nothing, and a
  \<open>MergeSchemas\<close> that fails.
\<close>

definition exampleExternals :: externals where
  "exampleExternals =
     \<lparr> extPropGoType = ''x-go-type'', extGoFieldName = ''x-go-name'',
       extPropOmitEmpty = ''x-omitempty'', extPropExtraTags = ''x-oapi-codegen-extra-tags'',
       extTypeName = (\<lambda>v. Err (ExternalError ''extTypeName'')),
       extParseGoFieldName = (\<lambda>v. Err (ExternalError ''extParseGoFieldName'')),
       extParseOmitEmpty = (\<lambda>v. Err (ExternalError ''extParseOmitEmpty'')),
       extExtraTags = (\<lambda>v. Err (ExternalError ''extExtraTags'')),
       MergeSchemas = (\<lambda>h compile allOf path. Some (Err (ExternalError ''MergeSchemas''))) \<rparr>"

section \<open>Properties of the primitive type mapper\<close>

text \<open>
  C5. For base kind boolean the mapper returns an error exactly when the format is not
  empty (and \<open>bool\<close> otherwise). For base kind string it never returns an error: the six
  formats byte, email, date, date-time, json and uuid give their special types and every
  other format gives plain \<open>string\<close>. For base kind integer the formats int8, int16,
  int32, int64, uint8, uint16, uint32, uint64, int and uint give the integer type of that
  name, the empty format gives \<open>int\<close>, and every other format is an error. The mapper
  never panics.
\<close>

theorem resolveGoType_formats:
  "(isErr (resolveGoType f ''boolean'') \<longleftrightarrow> f \<noteq> '''')
   \<and> resolveGoType '''' ''boolean'' = Ok ''bool''
   \<and> \<not> isErr (resolveGoType f ''string'')
   \<and> resolveGoType ''byte'' ''string'' = Ok ''[]byte''
   \<and> resolveGoType ''email'' ''string'' = Ok ''openapi_types.Email''
   \<and> resolveGoType ''date'' ''string'' = Ok ''openapi_types.Date''
   \<and> resolveGoType ''date-time'' ''string'' = Ok ''time.Time''
   \<and> resolveGoType ''json'' ''string'' = Ok ''json.RawMessage''
   \<and> resolveGoType ''uuid'' ''string'' = Ok ''openapi_types.UUID''
   \<and> (f \<notin> {''byte'', ''email'', ''date'', ''date-time'', ''json'', ''uuid''} \<longrightarrow>
        resolveGoType f ''string'' = Ok ''string'')
   \<and> (f \<in> {''int8'', ''int16'', ''int32'', ''int64'', ''uint8'', ''uint16'', ''uint32'', ''uint64'',
             ''int'', ''uint''} \<longrightarrow>
        resolveGoType f ''integer'' = Ok f)
   \<and> resolveGoType '''' ''integer'' = Ok ''int''
   \<and> (f \<notin> {''int8'', ''int16'', ''int32'', ''int64'', ''uint8'', ''uint16'', ''uint32'', ''uint64'',
             ''int'', ''uint'', ''''} \<longrightarrow>
        resolveGoType f ''integer'' = Err (InvalidIntegerFormat f))
   \<and> \<not> isPanic (resolveGoType f t)"
proof -
  have b: "isErr (resolveGoType f ''boolean'') \<longleftrightarrow> f \<noteq> ''''"
    by (simp add: resolveGoType_def)
  have s: "\<not> isErr (resolveGoType f ''string'')"
    by (simp add: resolveGoType_def)
  have c: "resolveGoType '''' ''boolean'' = Ok ''bool''"
    "resolveGoType ''byte'' ''string'' = Ok ''[]byte''"
    "resolveGoType ''email'' ''string'' = Ok ''openapi_types.Email''"
    "resolveGoType ''date'' ''string'' = Ok ''openapi_types.Date''"
    "resolveGoType ''date-time'' ''string'' = Ok ''time.Time''"
    "resolveGoType ''json'' ''string'' = Ok ''json.RawMessage''"
    "resolveGoType ''uuid'' ''string'' = Ok ''openapi_types.UUID''"
    "resolveGoType '''' ''integer'' = Ok ''int''"
    by (simp_all add: resolveGoType_def)
  have o: "f \<notin> {''byte'', ''email'', ''date'', ''date-time'', ''json'', ''uuid''} \<longrightarrow>
        resolveGoType f ''string'' = Ok ''string''"
    by (simp add: resolveGoType_def)
  have i: "f \<in> {''int8'', ''int16'', ''int32'', ''int64'', ''uint8'', ''uint16'', ''uint32'', ''uint64'',
             ''int'', ''uint''} \<longrightarrow>
        resolveGoType f ''integer'' = Ok f"
    by (auto simp: resolveGoType_def)
  have e: "f \<notin> {''int8'', ''int16'', ''int32'', ''int64'', ''uint8'', ''uint16'', ''uint32'', ''uint64'',
             ''int'', ''uint'', ''''} \<longrightarrow>
        resolveGoType f ''integer'' = Err (InvalidIntegerFormat f)"
    by (simp add: resolveGoType_def)
  have p: "\<not> isPanic (resolveGoType f t)"
    by (simp add: resolveGoType_def)
  from b s c o i e p show ?thesis by blast
qed

theorem resolveGoType_formats_witness:
  "isErr (resolveGoType ''int32'' ''boolean'')
   \<and> resolveGoType '''' ''boolean'' = Ok ''bool''
   \<and> resolveGoType ''uuid'' ''string'' = Ok ''openapi_types.UUID''
   \<and> resolveGoType ''hostname'' ''string'' = Ok ''string''
   \<and> resolveGoType ''uint16'' ''integer'' = Ok ''uint16''
   \<and> resolveGoType ''int128'' ''integer'' = Err (InvalidIntegerFormat ''int128'')"
proof -
  note a = resolveGoType_formats [of "''int32''" "[]"]
  note b = resolveGoType_formats [of "''hostname''" "[]"]
  note c = resolveGoType_formats [of "''uint16''" "[]"]
  note d = resolveGoType_formats [of "''int128''" "[]"]
  have 1: "isErr (resolveGoType ''int32'' ''boolean'')"
    using a [THEN conjunct1] by simp
  have 2: "resolveGoType '''' ''boolean'' = Ok ''bool''"
    by (rule a [THEN conjunct2, THEN conjunct1])
  have 3: "resolveGoType ''uuid'' ''string'' = Ok ''openapi_types.UUID''"
    by (rule a [THEN conjunct2, THEN conjunct2, THEN conjunct2, THEN conjunct2, THEN conjunct2,
          THEN conjunct2, THEN conjunct2, THEN conjunct2, THEN conjunct1])
  have 4: "resolveGoType ''hostname'' ''string'' = Ok ''string''"
    using b [THEN conjunct2, THEN conjunct2, THEN conjunct2, THEN conjunct2, THEN conjunct2,
          THEN conjunct2, THEN conjunct2, THEN conjunct2, THEN conjunct2, THEN conjunct1]
    by simp
  have 5: "resolveGoType ''uint16'' ''integer'' = Ok ''uint16''"
    using c [THEN conjunct2, THEN conjunct2, THEN conjunct2, THEN conjunct2, THEN conjunct2,
          THEN conjunct2, THEN conjunct2, THEN conjunct2, THEN conjunct2, THEN conjunct2,
          THEN conjunct1]
    by simp
  have 6: "resolveGoType ''int128'' ''integer'' = Err (InvalidIntegerFormat ''int128'')"
    using d [THEN conjunct2, THEN conjunct2, THEN conjunct2, THEN conjunct2, THEN conjunct2,
          THEN conjunct2, THEN conjunct2, THEN conjunct2, THEN conjunct2, THEN conjunct2,
          THEN conjunct2, THEN conjunct2, THEN conjunct1]
    by simp
  from 1 2 3 4 5 6 show ?thesis by simp
qed

section \<open>Properties of the identifier sanitizer\<close>

lemma underscore_not_keyword: "\<not> IsGoKeyword (CHR ''_'' # w)"
  by (simp add: IsGoKeyword_def)

lemma underscore_not_predeclared: "\<not> IsPredeclaredGoIdentifier (CHR ''_'' # w)"
  by (simp add: IsPredeclaredGoIdentifier_def)

lemma IsValidGoIdentity_plain:
  "\<not> IsGoKeyword s \<Longrightarrow> \<not> IsPredeclaredGoIdentifier s \<Longrightarrow> IsValidGoIdentity R s"
  by (simp add: IsValidGoIdentity_def IsGoIdentity_def)

lemma SanitizeGoIdentity_eq:
  "SanitizeGoIdentity R str =
     Ok (let str1 = fromRunes (SanitizeGoIdentity_loop R (runes str))
         in if IsGoKeyword str1 \<or> IsPredeclaredGoIdentifier str1 then ''_'' @ str1 else str1)"
  by (simp add: SanitizeGoIdentity_def Let_def IsValidGoIdentity_plain
      underscore_not_keyword underscore_not_predeclared)

text \<open>
  C9. For every input string (and whatever the Unicode tables say) \<open>SanitizeGoIdentity\<close>
  returns: its final check \<open>IsValidGoIdentity\<close> holds of the string it built, so the
  panic is unreachable. \<open>IsGoIdentity\<close> ends with \<open>IsGoKeyword\<close>, and a string that got
  the prefix \<open>_\<close> is neither a keyword nor predeclared.
\<close>

theorem SanitizeGoIdentity_never_panics:
  "\<not> isPanic (SanitizeGoIdentity R str) \<and> (\<exists>v. SanitizeGoIdentity R str = Ok v \<and> IsValidGoIdentity R v)"
  by (simp add: SanitizeGoIdentity_eq Let_def IsValidGoIdentity_plain
      underscore_not_keyword underscore_not_predeclared)

theorem SanitizeGoIdentity_never_panics_witness:
  "\<not> isPanic (SanitizeGoIdentity latin1 ''2fast'') \<and> \<not> isPanic (SanitizeGoIdentity latin1 ''go'')"
  using SanitizeGoIdentity_never_panics [of latin1 "''2fast''"]
    SanitizeGoIdentity_never_panics [of latin1 "''go''"]
  by simp

lemma rangeString_ascii:
  "(of_char d :: nat) < 0x80 \<Longrightarrow> rangeString i (d # rest) = (i, rn d) # rangeString (Suc i) rest"
  by (subst rangeString.simps) (simp add: DecodeRuneInString_def)

lemma rangeString_offset: "map snd (rangeString i s) = map snd (rangeString j s)"
proof (induction "length s" arbitrary: i j s rule: less_induct)
  case less
  show ?case
  proof (cases "s = []")
    case True
    then show ?thesis by (simp add: rangeString.simps)
  next
    case False
    then have "length (drop (snd (DecodeRuneInString s)) s) < length s"
      using DecodeRuneInString_width [of s] by simp
    then have "map snd (rangeString (i + snd (DecodeRuneInString s)) (drop (snd (DecodeRuneInString s)) s))
        = map snd (rangeString (j + snd (DecodeRuneInString s)) (drop (snd (DecodeRuneInString s)) s))"
      by (rule less)
    with False show ?thesis
      by (simp add: rangeString.simps [of i s] rangeString.simps [of j s])
  qed
qed

lemma runes_ascii: "(of_char d :: nat) < 0x80 \<Longrightarrow> runes (d # rest) = rn d # runes rest"
  using rangeString_offset [of "Suc 0" rest 0] by (simp add: runes_def rangeString_ascii)

lemma EncodeRune_ascii: "(of_char d :: nat) < 0x80 \<Longrightarrow> EncodeRune (rn d) = [d]"
  by (simp add: EncodeRune_def)

lemma digit_ascii: "d \<in> set ''0123456789'' \<Longrightarrow> (of_char d :: nat) < 0x80"
  by auto

lemma EncodeRune_underscore: "EncodeRune 95 = ''_''"
  by code_simp

lemma SanitizeGoIdentity_loop_number:
  "IsNumber R r \<Longrightarrow> \<exists>w. fromRunes (SanitizeGoIdentity_loop R (r # rs)) = CHR ''_'' # w"
  by (simp add: SanitizeGoIdentity_loop_def enumerate_simps isValidRuneForGoID_def fromRunes_def
      EncodeRune_underscore)

lemma typeNamePrefix_digit:
  "runes str = r # rs \<Longrightarrow> IsDigit R r \<Longrightarrow> r \<notin> set (map rn ''$-+&~=#.'') \<Longrightarrow>
   typeNamePrefix R str = ''N''"
  by (simp add: typeNamePrefix_def)

text \<open>
  C8. The result of \<open>SanitizeGoIdentity\<close> is never a Go keyword and never a predeclared
  identifier: it is the string with the invalid runes replaced, with the prefix \<open>_\<close>
  when that string is a keyword or predeclared. For a name whose first rune is a digit
  (a number of the Unicode tables) the result starts with \<open>_\<close>, which stands in the place
  of the digit, and \<open>SchemaNameToTypeName\<close> starts with the marker \<open>N\<close>; neither starts
  with a digit. A string that starts with one of the bytes \<open>0\<close>..\<open>9\<close> has that digit as its
  first rune.
\<close>

theorem SanitizeGoIdentity_result:
  "(\<exists>v. SanitizeGoIdentity R str = Ok v
        \<and> \<not> IsGoKeyword v \<and> \<not> IsPredeclaredGoIdentifier v
        \<and> (let c = fromRunes (SanitizeGoIdentity_loop R (runes str))
           in v = (if IsGoKeyword c \<or> IsPredeclaredGoIdentifier c then ''_'' @ c else c)))
   \<and> (\<forall>r rs. runes str = r # rs \<and> IsNumber R r \<longrightarrow>
         (\<exists>w. SanitizeGoIdentity R str = Ok (CHR ''_'' # w)))
   \<and> (\<forall>r rs. runes str = r # rs \<and> IsDigit R r \<and> r \<notin> set (map rn ''$-+&~=#.'') \<longrightarrow>
         (\<exists>w. SchemaNameToTypeName R str = CHR ''N'' # w))
   \<and> (\<forall>d rest. str = d # rest \<and> d \<in> set ''0123456789'' \<longrightarrow> runes str = rn d # runes rest)"
proof -
  have a: "\<exists>v. SanitizeGoIdentity R str = Ok v
        \<and> \<not> IsGoKeyword v \<and> \<not> IsPredeclaredGoIdentifier v
        \<and> (let c = fromRunes (SanitizeGoIdentity_loop R (runes str))
           in v = (if IsGoKeyword c \<or> IsPredeclaredGoIdentifier c then ''_'' @ c else c))"
    by (simp add: SanitizeGoIdentity_eq Let_def underscore_not_keyword underscore_not_predeclared)
  have b: "\<exists>w. SanitizeGoIdentity R str = Ok (CHR ''_'' # w)"
    if h1: "runes str = r # rs" and h2: "IsNumber R r" for r rs
  proof -
    obtain w where "fromRunes (SanitizeGoIdentity_loop R (r # rs)) = CHR ''_'' # w"
      using SanitizeGoIdentity_loop_number [OF h2] by blast
    then show ?thesis
      by (simp add: SanitizeGoIdentity_eq h1 underscore_not_keyword underscore_not_predeclared)
  qed
  have c: "\<exists>w. SchemaNameToTypeName R str = CHR ''N'' # w"
    if "runes str = r # rs" "IsDigit R r" "r \<notin> set (map rn ''$-+&~=#.'')" for r rs
    using typeNamePrefix_digit [OF that] by (simp add: SchemaNameToTypeName_def)
  have d: "runes str = rn d # runes rest" if "str = d # rest" "d \<in> set ''0123456789''" for d rest
    using that by (simp add: runes_ascii digit_ascii)
  from a b c d show ?thesis by blast
qed

theorem SanitizeGoIdentity_result_witness:
  "SanitizeGoIdentity latin1 ''2fast'' = Ok ''_fast''
   \<and> SchemaNameToTypeName latin1 ''2fast'' = ''N2fast''
   \<and> SanitizeGoIdentity latin1 ''type'' = Ok ''_type''
   \<and> SanitizeGoIdentity latin1 ''len'' = Ok ''_len''
   \<and> \<not> IsGoKeyword ''_type'' \<and> \<not> IsPredeclaredGoIdentifier ''_len''"
proof -
  note t = SanitizeGoIdentity_result [of latin1 "''2fast''"]
  have r: "runes ''2fast'' = rn CHR ''2'' # runes ''fast''"
    using t [THEN conjunct2, THEN conjunct2, THEN conjunct2] by simp
  have n: "IsNumber latin1 (rn CHR ''2'')" "IsDigit latin1 (rn CHR ''2'')"
    by (simp_all add: latin1_def latin1_IsNumber_def latin1_IsDigit_def)
  obtain w where w: "SanitizeGoIdentity latin1 ''2fast'' = Ok (CHR ''_'' # w)"
    using t [THEN conjunct2, THEN conjunct1] r n by blast
  obtain u where u: "SchemaNameToTypeName latin1 ''2fast'' = CHR ''N'' # u"
    using t [THEN conjunct2, THEN conjunct2, THEN conjunct1] r n by auto
  have 1: "SanitizeGoIdentity latin1 ''2fast'' = Ok ''_fast''" by code_simp
  have 2: "SchemaNameToTypeName latin1 ''2fast'' = ''N2fast''" by code_simp
  have 3: "SanitizeGoIdentity latin1 ''type'' = Ok ''_type''" by code_simp
  have 4: "SanitizeGoIdentity latin1 ''len'' = Ok ''_len''" by code_simp
  from SanitizeGoIdentity_result [of latin1 "''type''", THEN conjunct1]
    SanitizeGoIdentity_result [of latin1 "''len''", THEN conjunct1] 1 2 3 4 w u
  show ?thesis by simp
qed

section \<open>Properties of the naming transform\<close>

lemma rewritesAtBoundary_append_keep:
  "rewritesAtBoundary pat rep s s' \<Longrightarrow> rewritesAtBoundary pat rep (u @ s) (u @ s')"
  by (induction u) (auto intro: rewritesAtBoundary.keep)

lemma ReplaceAllString_rewrites: "rewritesAtBoundary pat rep s (ReplaceAllString pat rep s)"
proof (induction pat rep s rule: ReplaceAllString.induct)
  case (1 pat rep s)
  show ?case
  proof (cases "s = []")
    case True
    then show ?thesis
      by (simp add: ReplaceAllString.simps [of pat rep "[]"] rewritesAtBoundary.finish)
  next
    case False
    show ?thesis
    proof (cases "matchesAt pat s")
      case True
      let ?rest = "drop (length pat) s"
      from True have s: "s = pat @ ?rest"
        by (auto simp: matchesAt_def prefix_def)
      from True have b: "?rest = [] \<or> notLowerAZ (hd ?rest)"
        by (simp add: matchesAt_def)
      have "rewritesAtBoundary pat rep (dropWhile notLowerAZ ?rest)
          (ReplaceAllString pat rep (dropWhile notLowerAZ ?rest))"
        using False True by (rule "1.IH"(1))
      then have "rewritesAtBoundary pat rep (takeWhile notLowerAZ ?rest @ dropWhile notLowerAZ ?rest)
          (takeWhile notLowerAZ ?rest @ ReplaceAllString pat rep (dropWhile notLowerAZ ?rest))"
        by (rule rewritesAtBoundary_append_keep)
      then have "rewritesAtBoundary pat rep ?rest
          (takeWhile notLowerAZ ?rest @ ReplaceAllString pat rep (dropWhile notLowerAZ ?rest))"
        by simp
      with b have "rewritesAtBoundary pat rep (pat @ ?rest)
          (rep @ takeWhile notLowerAZ ?rest @ ReplaceAllString pat rep (dropWhile notLowerAZ ?rest))"
        by (rule rewritesAtBoundary.replace)
      with s False True show ?thesis
        by (simp add: ReplaceAllString.simps [of pat rep s])
    next
      case nm: False
      have "rewritesAtBoundary pat rep (tl s) (ReplaceAllString pat rep (tl s))"
        using False nm by (rule "1.IH"(2))
      then have "rewritesAtBoundary pat rep (hd s # tl s) (hd s # ReplaceAllString pat rep (tl s))"
        by (rule rewritesAtBoundary.keep)
      with False nm show ?thesis
        by (simp add: ReplaceAllString.simps [of pat rep s])
    qed
  qed
qed

lemma fold_rewritesAll:
  "rewritesAllAtBoundary entries s (fold (\<lambda>(rep, pat) str. ReplaceAllString pat rep str) entries s)"
proof (induction entries arbitrary: s)
  case Nil
  show ?case by (simp add: rewritesAllAtBoundary.no_entry)
next
  case (Cons e entries)
  obtain rep pat where e: "e = (rep, pat)" by (cases e)
  have "rewritesAllAtBoundary ((rep, pat) # entries) s
      (fold (\<lambda>(rep, pat) str. ReplaceAllString pat rep str) entries (ReplaceAllString pat rep s))"
    using ReplaceAllString_rewrites Cons.IH by (rule rewritesAllAtBoundary.entry)
  then show ?case by (simp add: e)
qed

lemma ReplaceAllString_unchanged:
  "\<not> occursAtBoundary pat s \<Longrightarrow> ReplaceAllString pat rep s = s"
proof (induction s)
  case Nil
  show ?case by (simp add: ReplaceAllString.simps [of pat rep "[]"])
next
  case (Cons c s)
  then show ?case by (simp add: ReplaceAllString.simps [of pat rep "c # s"])
qed

lemma fold_unchanged:
  "list_all (\<lambda>(rep, pat). \<not> occursAtBoundary pat s) entries \<Longrightarrow>
   fold (\<lambda>(rep, pat) str. ReplaceAllString pat rep str) entries s = s"
  by (induction entries) (auto simp: ReplaceAllString_unchanged)

text \<open>
  What the patterns do achieve. A replacement of an initialism rewrites an occurrence of
  the pattern's literal only where it is directly followed by the end of the string or by
  a byte other than an ASCII lower-case letter \<open>a\<close>..\<open>z\<close>, and leaves every other byte as
  it is: this holds of each \<open>ReplaceAllString\<close> and of their sequence in
  \<open>fixCamelCaseAbbrev\<close>, in whatever order the map is visited. So a string in which no
  pattern is followed by the end or by such a byte (a word that goes on with an ASCII
  lower-case letter after the letters of an initialism) is returned unchanged. Nothing is
  said here about which of these occurrences are rewritten.
\<close>

lemma fixCamelCaseAbbrev_ascii_boundary:
  "rewritesAtBoundary pat rep s (ReplaceAllString pat rep s)
   \<and> rewritesAllAtBoundary (initialismOrder R s) s (fixCamelCaseAbbrev R s)
   \<and> (list_all (\<lambda>(rep, pat). \<not> occursAtBoundary pat s) (initialismOrder R s) \<longrightarrow>
        fixCamelCaseAbbrev R s = s)"
  by (simp add: ReplaceAllString_rewrites fold_rewritesAll fold_unchanged fixCamelCaseAbbrev_def)

lemma fixCamelCaseAbbrev_ascii_boundary_example:
  "rewritesAtBoundary ''Id'' ''ID'' ''UserIdOfIdentity'' ''UserIDOfIdentity''
   \<and> fixCamelCaseAbbrev latin1 ''IdentityUrlencoded'' = ''IdentityUrlencoded''
   \<and> ToPascalCase latin1 ''identity'' = ''Identity''"
proof -
  have 1: "ReplaceAllString ''Id'' ''ID'' ''UserIdOfIdentity'' = ''UserIDOfIdentity''"
    by code_simp
  have 2: "list_all (\<lambda>(rep, pat). \<not> occursAtBoundary pat ''IdentityUrlencoded'')
      (initialismOrder latin1 ''IdentityUrlencoded'')"
    by code_simp
  have 3: "ToPascalCase latin1 ''identity'' = ''Identity''"
    by code_simp
  from fixCamelCaseAbbrev_ascii_boundary [of "''Id''" "''ID''" "''UserIdOfIdentity''" latin1, THEN conjunct1]
    fixCamelCaseAbbrev_ascii_boundary [of "''Id''" "''ID''" "''IdentityUrlencoded''" latin1,
      THEN conjunct2, THEN conjunct2] 1 2 3
  show ?thesis by simp
qed

text \<open>
  The word \<open>Id\<close>, U+00E9, \<open>e\<close> (in UTF-8 the bytes \<open>49 64 C3 A9 65\<close>) under each entry of
  the table: the entry \<open>ID\<close> rewrites its first two bytes, every other entry leaves it as
  it is, and no entry changes the rewritten word.
\<close>

lemma each_initialism_on_word:
  "list_all (\<lambda>(rep, pat).
      ReplaceAllString pat rep (''ID'' @ [CHR 0xC3, CHR 0xA9] @ ''e'')
        = ''ID'' @ [CHR 0xC3, CHR 0xA9] @ ''e''
      \<and> ReplaceAllString pat rep (''Id'' @ [CHR 0xC3, CHR 0xA9] @ ''e'') =
          (if (rep, pat) = (''ID'', ''Id'') then ''ID'' @ [CHR 0xC3, CHR 0xA9] @ ''e''
           else ''Id'' @ [CHR 0xC3, CHR 0xA9] @ ''e'')) commonInitialisms"
  by code_simp

lemma fold_initialisms_on_word:
  "set entries \<subseteq> set commonInitialisms \<Longrightarrow>
   fold (\<lambda>(rep, pat) str. ReplaceAllString pat rep str) entries
       (''ID'' @ [CHR 0xC3, CHR 0xA9] @ ''e'')
     = ''ID'' @ [CHR 0xC3, CHR 0xA9] @ ''e''
   \<and> fold (\<lambda>(rep, pat) str. ReplaceAllString pat rep str) entries
       (''Id'' @ [CHR 0xC3, CHR 0xA9] @ ''e'')
     = (if (''ID'', ''Id'') \<in> set entries then ''ID'' @ [CHR 0xC3, CHR 0xA9] @ ''e''
        else ''Id'' @ [CHR 0xC3, CHR 0xA9] @ ''e'')"
proof (induction entries)
  case Nil
  show ?case by simp
next
  case (Cons e entries)
  obtain rep pat where e: "e = (rep, pat)" by (cases e)
  from Cons.prems have m: "(rep, pat) \<in> set commonInitialisms"
    and s: "set entries \<subseteq> set commonInitialisms"
    by (simp_all add: e)
  from m each_initialism_on_word [unfolded list_all_iff]
  have 1: "ReplaceAllString pat rep (''ID'' @ [CHR 0xC3, CHR 0xA9] @ ''e'')
      = ''ID'' @ [CHR 0xC3, CHR 0xA9] @ ''e''"
    and 2: "ReplaceAllString pat rep (''Id'' @ [CHR 0xC3, CHR 0xA9] @ ''e'') =
          (if (rep, pat) = (''ID'', ''Id'') then ''ID'' @ [CHR 0xC3, CHR 0xA9] @ ''e''
           else ''Id'' @ [CHR 0xC3, CHR 0xA9] @ ''e'')"
    by auto
  from Cons.IH [OF s] 1 2 show ?case
    by (auto simp: e)
qed

text \<open>
  C7: no replacement of an initialism rewrites a part of a longer word. The code aims at
  this: every pattern ends in \<open>([^a-z]+|$)\<close>, so that the literal is replaced only where
  the word ends, and a word that goes on with an ASCII lower-case letter is left alone
  (\<open>identity\<close> becomes \<open>Identity\<close>). The class, however, is written for ASCII, while the
  case conversion that runs just before it in \<open>toCamelorPascalCase\<close> keeps every
  lower-case letter of Unicode as a part of the word (\<open>unicode.IsLower\<close>). A property
  named by the French word for idea, \<open>id\<close>, U+00E9, \<open>e\<close> (in UTF-8 the bytes
  \<open>69 64 C3 A9 65\<close>), comes out of the conversion as one capitalised word; the pattern
  of \<open>ID\<close> takes the first byte of U+00E9 for the end of a word and
  \<open>fixCamelCaseAbbrev\<close> rewrites the first two letters of the word to \<open>ID\<close>, in whatever
  order the map is visited. \<open>ToPascalCase\<close> returns the corrupted word, and so does
  \<open>GoFieldName\<close> for the field of the generated struct.
\<close>

theorem ToPascalCase_rewrites_inside_word:
  "runes (''id'' @ [CHR 0xC3, CHR 0xA9] @ ''e'') = [0x69, 0x64, 0xE9, 0x65]
   \<and> IsLower latin1 0xE9
   \<and> toCamelorPascalCase_loop latin1
        (runes (strings_Trim_space (''id'' @ [CHR 0xC3, CHR 0xA9] @ ''e''))) [] True
       = ''Id'' @ [CHR 0xC3, CHR 0xA9] @ ''e''
   \<and> (set (initialismOrder R (''Id'' @ [CHR 0xC3, CHR 0xA9] @ ''e'')) = set commonInitialisms \<longrightarrow>
        fixCamelCaseAbbrev R (''Id'' @ [CHR 0xC3, CHR 0xA9] @ ''e'')
          = ''ID'' @ [CHR 0xC3, CHR 0xA9] @ ''e'')
   \<and> ToPascalCase latin1 (''id'' @ [CHR 0xC3, CHR 0xA9] @ ''e'')
       = ''ID'' @ [CHR 0xC3, CHR 0xA9] @ ''e''
   \<and> GoFieldName latin1 (exampleProperty (''id'' @ [CHR 0xC3, CHR 0xA9] @ ''e'') ''string'' True)
       = ''ID'' @ [CHR 0xC3, CHR 0xA9] @ ''e''"
proof -
  have 1: "runes (''id'' @ [CHR 0xC3, CHR 0xA9] @ ''e'') = [0x69, 0x64, 0xE9, 0x65]"
    by code_simp
  have 2: "IsLower latin1 0xE9"
    by code_simp
  have 3: "toCamelorPascalCase_loop latin1
        (runes (strings_Trim_space (''id'' @ [CHR 0xC3, CHR 0xA9] @ ''e''))) [] True
       = ''Id'' @ [CHR 0xC3, CHR 0xA9] @ ''e''"
    by code_simp
  have 4: "fixCamelCaseAbbrev R (''Id'' @ [CHR 0xC3, CHR 0xA9] @ ''e'')
          = ''ID'' @ [CHR 0xC3, CHR 0xA9] @ ''e''"
    if "set (initialismOrder R (''Id'' @ [CHR 0xC3, CHR 0xA9] @ ''e'')) = set commonInitialisms"
  proof -
    have "(''ID'', ''Id'') \<in> set commonInitialisms"
      by code_simp
    with that fold_initialisms_on_word
      [of "initialismOrder R (''Id'' @ [CHR 0xC3, CHR 0xA9] @ ''e'')", THEN conjunct2]
    show ?thesis
      by (simp add: fixCamelCaseAbbrev_def)
  qed
  have 5: "ToPascalCase latin1 (''id'' @ [CHR 0xC3, CHR 0xA9] @ ''e'')
       = ''ID'' @ [CHR 0xC3, CHR 0xA9] @ ''e''"
    by code_simp
  have 6: "GoFieldName latin1 (exampleProperty (''id'' @ [CHR 0xC3, CHR 0xA9] @ ''e'') ''string'' True)
       = ''ID'' @ [CHR 0xC3, CHR 0xA9] @ ''e''"
    by code_simp
  from 1 2 3 4 5 6 show ?thesis
    by blast
qed

theorem ToPascalCase_rewrites_inside_word_witness:
  "set (initialismOrder (latin1 \<lparr> initialismOrder := \<lambda>str. rev commonInitialisms \<rparr>)
        (''Id'' @ [CHR 0xC3, CHR 0xA9] @ ''e'')) = set commonInitialisms
   \<and> fixCamelCaseAbbrev (latin1 \<lparr> initialismOrder := \<lambda>str. rev commonInitialisms \<rparr>)
        (''Id'' @ [CHR 0xC3, CHR 0xA9] @ ''e'')
       = ''ID'' @ [CHR 0xC3, CHR 0xA9] @ ''e''"
proof -
  have o: "set (initialismOrder (latin1 \<lparr> initialismOrder := \<lambda>str. rev commonInitialisms \<rparr>)
        (''Id'' @ [CHR 0xC3, CHR 0xA9] @ ''e'')) = set commonInitialisms"
    by simp
  from o ToPascalCase_rewrites_inside_word
    [of "latin1 \<lparr> initialismOrder := \<lambda>str. rev commonInitialisms \<rparr>",
      THEN conjunct2, THEN conjunct2, THEN conjunct2, THEN conjunct1, rule_format, OF o]
  show ?thesis
    by (rule conjI)
qed

section \<open>Properties of the enum extractor\<close>







lemma firstOccurrences_set_aux:
  "set (foldl (\<lambda>acc x. if x \<in> set acc then acc else acc @ [x]) acc xs) = set acc \<union> set xs"
  by (induction xs arbitrary: acc) auto


lemma firstOccurrences_snoc:
  "firstOccurrences (xs @ [x]) =
     (if x \<in> set xs then firstOccurrences xs else firstOccurrences xs @ [x])"
  by (simp add: firstOccurrences_def firstOccurrences_set_aux)







section \<open>Properties of the ordering utility\<close>










section \<open>Properties of the reference resolver\<close>

lemma refPathToGoType_fragment:
  "refPathToGoType R im (CHR ''#'' # frag) local =
     (let pathParts = strings_Split (CHR ''#'' # frag) CHR ''/''; depth = length pathParts
      in if local \<and> depth \<noteq> 4 \<or> \<not> local \<and> depth \<noteq> 4 \<and> depth \<noteq> 2
         then Err (UnexpectedReferenceDepth depth (CHR ''#'' # frag) local)
         else Ok (SchemaNameToTypeName R (last pathParts)))"
  by (subst refPathToGoType.simps) (simp add: Let_def)

lemma refPathToGoType_external:
  "p \<noteq> [] \<Longrightarrow> hd p \<noteq> CHR ''#'' \<Longrightarrow>
   refPathToGoType R im p local =
     (let pathParts = strings_Split p CHR ''#'' in
      if length pathParts \<noteq> 2 then Err (UnsupportedReference p)
      else case im (pathParts ! 0) of
             None \<Rightarrow> Err (UnrecognizedExternalReference (pathParts ! 0))
           | Some gi \<Rightarrow>
               (let parts = strings_Split (CHR ''#'' # pathParts ! 1) CHR ''/'' in
                if length parts \<noteq> 4 \<and> length parts \<noteq> 2
                then Err (UnexpectedReferenceDepth (length parts) (CHR ''#'' # pathParts ! 1) False)
                else Ok (Name gi @ ''.'' @ SchemaNameToTypeName R (last parts))))"
  by (subst refPathToGoType.simps) (simp add: Let_def refPathToGoType_fragment split: option.split)




text \<open>
  C10. \<open>refPathToGoType\<close> reads the first byte of its argument before anything else: for
  the empty reference path it panics (index out of range) instead of returning an error,
  and for every path that is not empty it returns a type name or an error and does not
  panic. The same holds of \<open>RefPathToGoType\<close>.
\<close>

theorem refPathToGoType_panics_only_on_empty:
  "(isPanic (refPathToGoType R im p local) \<longleftrightarrow> p = [])
   \<and> refPathToGoType R im [] local = Panic IndexOutOfRange
   \<and> RefPathToGoType R im [] = Panic IndexOutOfRange
   \<and> (p \<noteq> [] \<longrightarrow> isOk (refPathToGoType R im p local) \<or> isErr (refPathToGoType R im p local))
   \<and> (p \<noteq> [] \<longrightarrow> isOk (RefPathToGoType R im p) \<or> isErr (RefPathToGoType R im p))"
proof -
  have e: "refPathToGoType R im [] l = Panic IndexOutOfRange" for l
    by (subst refPathToGoType.simps) simp
  have n: "isOk (refPathToGoType R im p l) \<or> isErr (refPathToGoType R im p l)" if "p \<noteq> []" for l
  proof (cases "hd p = CHR ''#''")
    case True
    with that obtain frag where "p = CHR ''#'' # frag" by (cases p) auto
    then show ?thesis by (simp add: refPathToGoType_fragment Let_def)
  next
    case False
    with that show ?thesis by (simp add: refPathToGoType_external Let_def split: option.split)
  qed
  have "isPanic (refPathToGoType R im p local) \<longleftrightarrow> p = []"
    using e [of local] n [of local] by (cases "refPathToGoType R im p local") auto
  with e n show ?thesis by (simp add: RefPathToGoType_def)
qed


theorem refPathToGoType_panics_only_on_empty_witness:
  "isPanic (RefPathToGoType latin1 Map.empty [])
   \<and> \<not> isPanic (refPathToGoType latin1 Map.empty ''#/a/b'' True)
   \<and> \<not> isPanic (refPathToGoType latin1 Map.empty ''x'' False)"
  using refPathToGoType_panics_only_on_empty [of latin1 Map.empty "''#/a/b''" True]
    refPathToGoType_panics_only_on_empty [of latin1 Map.empty "''x''" False]
  by simp

section \<open>Properties of the type model\<close>

lemma AddProperty_scan_None:
  "AddProperty_scan es p = None \<longleftrightarrow>
     (\<forall>e \<in> set es. JsonFieldName e = JsonFieldName p \<longrightarrow> PropertiesEqual e p)"
  by (induction es) auto

lemma AddProperty_scan_Some:
  "AddProperty_scan es p = Some err \<Longrightarrow> err = PropertyAlreadyExists (JsonFieldName p)"
  by (induction es) (auto split: if_splits)

text \<open>
  C6. \<open>AddProperty\<close> fails exactly when a property already present has the same JSON
  field name as the new one and is not equivalent to it, where two properties are
  equivalent exactly when their field name, their \<open>Required\<close> flag and the type
  expression \<open>TypeDecl\<close> of their schema are equal. The error names the field. When
  every property of that name is equivalent to the new one, the new one is appended and
  no error is returned.
\<close>

theorem AddProperty_conflict:
  "(isErr (AddProperty s p) \<longleftrightarrow>
      (\<exists>e \<in> set (Properties s). JsonFieldName e = JsonFieldName p \<and> \<not> PropertiesEqual e p))
   \<and> (PropertiesEqual a b \<longleftrightarrow>
        JsonFieldName a = JsonFieldName b \<and> Required a = Required b
        \<and> TypeDecl (pSchema a) = TypeDecl (pSchema b))
   \<and> (\<forall>err. AddProperty s p = Err err \<longrightarrow> err = PropertyAlreadyExists (JsonFieldName p))
   \<and> ((\<forall>e \<in> set (Properties s). JsonFieldName e = JsonFieldName p \<longrightarrow> PropertiesEqual e p) \<longrightarrow>
        AddProperty s p = Ok (set_Properties s (Properties s @ [p])))
   \<and> \<not> isPanic (AddProperty s p)"
proof -
  have 1: "isErr (AddProperty s p) \<longleftrightarrow>
      (\<exists>e \<in> set (Properties s). JsonFieldName e = JsonFieldName p \<and> \<not> PropertiesEqual e p)"
    using AddProperty_scan_None [of "Properties s" p]
    by (cases "AddProperty_scan (Properties s) p") (auto simp: AddProperty_def)
  have 2: "PropertiesEqual a b \<longleftrightarrow>
        JsonFieldName a = JsonFieldName b \<and> Required a = Required b
        \<and> TypeDecl (pSchema a) = TypeDecl (pSchema b)"
    by (auto simp: PropertiesEqual_def)
  have 3: "\<forall>err. AddProperty s p = Err err \<longrightarrow> err = PropertyAlreadyExists (JsonFieldName p)"
    by (auto simp: AddProperty_def split: option.splits dest: AddProperty_scan_Some)
  have 4: "(\<forall>e \<in> set (Properties s). JsonFieldName e = JsonFieldName p \<longrightarrow> PropertiesEqual e p) \<longrightarrow>
        AddProperty s p = Ok (set_Properties s (Properties s @ [p]))"
    by (simp add: AddProperty_def AddProperty_scan_None [symmetric])
  have 5: "\<not> isPanic (AddProperty s p)"
    by (simp add: AddProperty_def split: option.split)
  from 1 2 3 4 5 show ?thesis by blast
qed

theorem AddProperty_conflict_witness:
  "AddProperty (set_Properties zeroSchema [exampleProperty ''id'' ''int64'' True])
       (exampleProperty ''id'' ''string'' True) = Err (PropertyAlreadyExists ''id'')
   \<and> AddProperty (set_Properties zeroSchema [exampleProperty ''id'' ''int64'' True])
       (exampleProperty ''id'' ''int64'' False) = Err (PropertyAlreadyExists ''id'')
   \<and> isOk (AddProperty (set_Properties zeroSchema [exampleProperty ''id'' ''int64'' True])
       (exampleProperty ''id'' ''int64'' True))
   \<and> isOk (AddProperty (set_Properties zeroSchema [exampleProperty ''id'' ''int64'' True])
       (exampleProperty ''name'' ''string'' True))"
proof -
  let ?s = "set_Properties zeroSchema [exampleProperty ''id'' ''int64'' True]"
  have p: "Properties ?s = [exampleProperty ''id'' ''int64'' True]"
    by (simp add: zeroSchema_def)
  have e: "\<not> PropertiesEqual (exampleProperty ''id'' ''int64'' True) (exampleProperty ''id'' ''string'' True)"
    "\<not> PropertiesEqual (exampleProperty ''id'' ''int64'' True) (exampleProperty ''id'' ''int64'' False)"
    "PropertiesEqual (exampleProperty ''id'' ''int64'' True) (exampleProperty ''id'' ''int64'' True)"
    by (simp_all add: PropertiesEqual_def exampleProperty_def TypeDecl_def IsRef_def zeroSchema_def)
  have n: "JsonFieldName (exampleProperty n g r) = n" for n g r
    by (simp add: exampleProperty_def)
  note a = AddProperty_conflict [of ?s "exampleProperty ''id'' ''string'' True"]
  note b = AddProperty_conflict [of ?s "exampleProperty ''id'' ''int64'' False"]
  note c = AddProperty_conflict [of ?s "exampleProperty ''id'' ''int64'' True"]
  note d = AddProperty_conflict [of ?s "exampleProperty ''name'' ''string'' True"]
  have 1: "AddProperty ?s (exampleProperty ''id'' ''string'' True) = Err (PropertyAlreadyExists ''id'')"
    using a [THEN conjunct1] a [THEN conjunct2, THEN conjunct2, THEN conjunct1] e
    by (cases "AddProperty ?s (exampleProperty ''id'' ''string'' True)") (simp_all add: p n)
  have 2: "AddProperty ?s (exampleProperty ''id'' ''int64'' False) = Err (PropertyAlreadyExists ''id'')"
    using b [THEN conjunct1] b [THEN conjunct2, THEN conjunct2, THEN conjunct1] e
    by (cases "AddProperty ?s (exampleProperty ''id'' ''int64'' False)") (simp_all add: p n)
  have 3: "isOk (AddProperty ?s (exampleProperty ''id'' ''int64'' True))"
    using c [THEN conjunct2, THEN conjunct2, THEN conjunct2, THEN conjunct1] e
    by (simp add: p n)
  have 4: "isOk (AddProperty ?s (exampleProperty ''name'' ''string'' True))"
    using d [THEN conjunct2, THEN conjunct2, THEN conjunct2, THEN conjunct1]
    by (simp add: p n)
  from 1 2 3 4 show ?thesis by simp
qed

section \<open>Properties of the structural schema compiler\<close>

lemma sort_Stable_single: "sort_Stable R [k] = [k]"
  by (simp add: sort_Stable_def insertionSort_def)

lemma nodeRef_resolves:
  "RefPathToGoType R im ''#/components/schemas/Node'' = Ok (SchemaNameToTypeName R ''Node'')"
  by (simp add: RefPathToGoType_def refPathToGoType_fragment)

lemma nodeRef_is_reference: "IsGoTypeReference (Ref nodeRef)"
  by (simp add: IsGoTypeReference_def IsWholeDocumentReference_def strings_ContainsAny_def nodeRef_def)

lemma generateProperties_node:
  "compile (Some nodeRef) (path @ [''next'']) = None \<Longrightarrow>
   generateProperties R nodeStore compile nodeSchema path outSchema = None"
  by (simp add: generateProperties_def SortedSchemaKeys_def nodeSchema_def emptyOaSchema_def
      sort_Stable_single andThen_def)

lemma GenerateGoSchema_nodeRef:
  "GenerateGoSchema E R im nodeStore n (Some nodeRef) path = None"
proof (induction n arbitrary: path)
  case 0
  show ?case by simp
next
  case (Suc n)
  have d: "deref nodeStore (Value nodeRef) = Some nodeSchema"
    by (simp add: deref_def nodeStore_def nodeRef_def)
  have a: "oaAllOf nodeSchema = None"
    by (simp add: nodeSchema_def emptyOaSchema_def)
  have r: "Ref nodeRef = ''#/components/schemas/Node''"
    by (simp add: nodeRef_def)
  have g: "generateProperties R nodeStore (GenerateGoSchema E R im nodeStore n) nodeSchema path out = None" for out
    by (rule generateProperties_node) (rule Suc.IH)
  show ?case
    using nodeRef_is_reference
    by (simp add: GenerateGoSchema_body_def r nodeRef_resolves d a g andThen_def)
qed

text \<open>
  C1. The claim that compiling a schema graph with a reference cycle terminates does
  not hold of \<open>GenerateGoSchema\<close>: for a reference it compiles the properties of the
  schema the reference points to. On the schema \<open>Node\<close>, whose property \<open>next\<close> is a
  reference to \<open>Node\<close>, no bound on the depth of the nested calls is enough, for the
  reference as for the definition of \<open>Node\<close> itself: the call never returns (in Go, until
  the stack overflows). This holds whatever the Unicode tables, the import mapping, the
  rest of the package and the path are.
\<close>

theorem GenerateGoSchema_cycle_never_returns:
  "GenerateGoSchema E R im nodeStore n (Some nodeRef) path = None
   \<and> GenerateGoSchema E R im nodeStore n (Some nodeDefinition) path = None"
proof -
  have "GenerateGoSchema E R im nodeStore n (Some nodeDefinition) path = None"
  proof (cases n)
    case 0
    then show ?thesis by simp
  next
    case (Suc m)
    have d: "deref nodeStore (Value nodeDefinition) = Some nodeSchema"
      by (simp add: deref_def nodeStore_def nodeDefinition_def)
    have g: "generateProperties R nodeStore (GenerateGoSchema E R im nodeStore m) nodeSchema path out = None" for out
      by (rule generateProperties_node) (rule GenerateGoSchema_nodeRef)
    have s: "oaAnyOf nodeSchema = None" "oaOneOf nodeSchema = None" "oaAllOf nodeSchema = None"
      "oaExtensions nodeSchema = []" "oaType nodeSchema = ''object''"
      "oaProperties nodeSchema = [(''next'', Some nodeRef)]"
      by (simp_all add: nodeSchema_def emptyOaSchema_def)
    show ?thesis
      by (simp add: Suc GenerateGoSchema_body_def IsGoTypeReference_def nodeDefinition_def [THEN arg_cong [where f = Ref]]
          d s g andThen_def)
  qed
  then show ?thesis by (simp add: GenerateGoSchema_nodeRef)
qed

text \<open>
  Where the schemas do not refer back, a bound that covers the depth of the document
  gives the result: a nil schema and a reference to a string schema need no nested call,
  an array of such references needs one.
\<close>

lemma GenerateGoSchema_nil:
  "GenerateGoSchema E R im h (Suc n) None path = Some (Ok (set_GoType zeroSchema ''interface{}''))"
  by (simp add: GenerateGoSchema_body_def)

lemma StringToGoComment_empty: "StringToGoComment R [] = []"
  by (simp add: StringToGoComment_def)

lemma GenerateGoSchema_nameRef:
  "GenerateGoSchema E R im nameStore (Suc n) (Some nameRef) path =
     Some (Ok (set_RefGoType (set_GoType zeroSchema (SchemaNameToTypeName R ''Name'')) ''string''))"
proof -
  have i: "IsGoTypeReference (Ref nameRef)"
    by (simp add: IsGoTypeReference_def IsWholeDocumentReference_def strings_ContainsAny_def nameRef_def)
  have r: "RefPathToGoType R im (Ref nameRef) = Ok (SchemaNameToTypeName R ''Name'')"
    by (simp add: nameRef_def RefPathToGoType_def refPathToGoType_fragment)
  have d: "deref nameStore (Value nameRef) = Some (emptyOaSchema \<lparr> oaType := ''string'' \<rparr>)"
    by (simp add: deref_def nameStore_def nameRef_def)
  have v: "Value nameRef = Some 1"
    by (simp add: nameRef_def)
  show ?thesis
    by (simp add: GenerateGoSchema_body_def i r d v emptyOaSchema_def StringToGoComment_empty
        resolveGoType_def generateProperties_def SortedSchemaKeys_def sort_Stable_def
        insertionSort_def andThen_def generateEnumValues_def SchemaHasAdditionalProperties_def
        zeroSchema_def deref_def nameStore_def)
qed

lemma GenerateGoSchema_namesDefinition:
  "GenerateGoSchema E R im namesStore (Suc 0) (Some namesDefinition) path = None"
  "GenerateGoSchema E R im namesStore (Suc (Suc n)) (Some namesDefinition) path =
     Some (Ok (set_OAPISchema
       (set_GoType
          (set_ArrayType zeroSchema
             (Some (set_RefGoType (set_GoType zeroSchema (SchemaNameToTypeName R ''Name'')) ''string'')))
          (''[]'' @ SchemaNameToTypeName R ''Name''))
       (Some 2)))"
proof -
  have d: "deref namesStore (Some 2) =
      Some (emptyOaSchema \<lparr> oaType := ''array'', oaItems := Some nameRef \<rparr>)"
    by (simp add: deref_def namesStore_def)
  have i: "\<not> IsGoTypeReference (Ref namesDefinition)"
    by (simp add: IsGoTypeReference_def namesDefinition_def)
  have v: "Value namesDefinition = Some 2"
    by (simp add: namesDefinition_def)
  have body: "GenerateGoSchema_body E R im namesStore compile (Some namesDefinition) path =
      andThen (compile (Some nameRef) path) (\<lambda>e. ErrorResolvingPrimitive (ErrorGeneratingArray e))
        (\<lambda>arrayType. Some (Ok (set_Properties
                              (set_AdditionalTypes
                                 (set_GoType (set_ArrayType
                                    (set_OAPISchema zeroSchema (Some 2)) (Some arrayType))
                                    (''[]'' @ TypeDecl arrayType))
                                 (AdditionalTypes arrayType))
                              (Properties arrayType))))" for compile
    by (cases "compile (Some nameRef) path")
       (auto simp add: GenerateGoSchema_body_def i d v emptyOaSchema_def StringToGoComment_empty
        resolveType_def resolveGoType_def andThen_def zeroSchema_def split: result.split)
  show "GenerateGoSchema E R im namesStore (Suc 0) (Some namesDefinition) path = None"
    by (simp add: body andThen_def)
  have n: "GenerateGoSchema E R im namesStore (Suc n) (Some nameRef) path =
     Some (Ok (set_RefGoType (set_GoType zeroSchema (SchemaNameToTypeName R ''Name'')) ''string''))"
  proof -
    have i: "IsGoTypeReference (Ref nameRef)"
      by (simp add: IsGoTypeReference_def IsWholeDocumentReference_def strings_ContainsAny_def nameRef_def)
    have r: "RefPathToGoType R im (Ref nameRef) = Ok (SchemaNameToTypeName R ''Name'')"
      by (simp add: nameRef_def RefPathToGoType_def refPathToGoType_fragment)
    have v: "Value nameRef = Some 1"
      by (simp add: nameRef_def)
    show ?thesis
      by (simp add: GenerateGoSchema_body_def i r v emptyOaSchema_def StringToGoComment_empty
        resolveGoType_def generateProperties_def SortedSchemaKeys_def sort_Stable_def
        insertionSort_def andThen_def generateEnumValues_def SchemaHasAdditionalProperties_def
        zeroSchema_def deref_def nameStore_def namesStore_def)
  qed
  show "GenerateGoSchema E R im namesStore (Suc (Suc n)) (Some namesDefinition) path =
     Some (Ok (set_OAPISchema
       (set_GoType
          (set_ArrayType zeroSchema
             (Some (set_RefGoType (set_GoType zeroSchema (SchemaNameToTypeName R ''Name'')) ''string'')))
          (''[]'' @ SchemaNameToTypeName R ''Name''))
       (Some 2)))"
    unfolding GenerateGoSchema.simps(2) [of E R im namesStore "Suc n"] body n
    by (simp add: andThen_def zeroSchema_def TypeDecl_def IsRef_def)
qed

end
